theory Spec2Isabelle
  imports Complex_Main
begin

section \<open>Python values used by the loan workflow\<close>

text \<open>
  The program is a Python module. Its numbers are Python ints (unbounded, modelled as
  \<open>int\<close>) and Python floats (IEEE-754 binary64). A float is modelled by its sign bit and
  its exact magnitude, a rational that is representable in binary64; every arithmetic
  operation computes the exact rational result and rounds it to the nearest representable
  value, ties to even, as the hardware does. Exceptions are values of \<open>py_error\<close>.
\<close>

datatype py_error =
  ZeroDivisionError | OverflowError | AttributeError | TypeError | KeyError | OperationalError

datatype pyfloat = Finite bool rat | Infinity bool | NaN

datatype pynum = PyInt int | PyFloat pyfloat

subsection \<open>Rounding to binary64\<close>

definition round_half_even :: "rat \<Rightarrow> int" where
  "round_half_even x =
     (let f = \<lfloor>x\<rfloor>; d = x - of_int f
      in if d < 1/2 then f else if 1/2 < d then f + 1 else if even f then f else f + 1)"

fun bit_length :: "nat \<Rightarrow> nat" where
  "bit_length n = (if n = 0 then 0 else Suc (bit_length (n div 2)))"

definition pow2 :: "int \<Rightarrow> rat" where
  "pow2 k = (if 0 \<le> k then 2 ^ nat k else 1 / 2 ^ nat (- k))"

text \<open>\<open>ilog2 q\<close> is the binary exponent of a positive rational: \<open>2^e \<le> q < 2^(e+1)\<close>.\<close>

definition ilog2 :: "rat \<Rightarrow> int" where
  "ilog2 q = (if 1 \<le> q then int (bit_length (nat \<lfloor>q\<rfloor>)) - 1
              else - int (bit_length (nat (\<lceil>1 / q\<rceil> - 1))))"

text \<open>
  Nearest binary64 magnitude of a non-negative rational, with an unbounded exponent
  above: 53 significant bits for normal numbers, multiples of \<open>2^-1074\<close> below the
  normal range.
\<close>

definition round_double :: "rat \<Rightarrow> rat" where
  "round_double q =
     (if q = 0 then 0
      else let ex = max (ilog2 q - 52) (- 1074)
           in of_int (round_half_even (q / pow2 ex)) * pow2 ex)"

definition double_overflow :: "rat \<Rightarrow> bool" where
  "double_overflow r = (2 ^ 1024 \<le> r)"

text \<open>Float arithmetic overflows silently to an infinity.\<close>

definition to_double :: "bool \<Rightarrow> rat \<Rightarrow> pyfloat" where
  "to_double s m = (let r = round_double m in if double_overflow r then Infinity s else Finite s r)"

text \<open>A float literal of the source, such as \<open>1.12\<close>.\<close>

definition float_lit :: "rat \<Rightarrow> pyfloat" where
  "float_lit q = to_double (q < 0) \<bar>q\<bar>"

text \<open>\<open>float(n)\<close> for an int, also the implicit conversion in mixed arithmetic: it raises
  OverflowError when the rounded value is out of range.\<close>

definition int_to_float :: "int \<Rightarrow> py_error + pyfloat" where
  "int_to_float n =
     (let r = round_double (of_int \<bar>n\<bar>)
      in if double_overflow r then Inl OverflowError else Inr (Finite (n < 0) r))"

fun to_float :: "pynum \<Rightarrow> py_error + pyfloat" where
  "to_float (PyInt n) = int_to_float n"
| "to_float (PyFloat x) = Inr x"

subsection \<open>Arithmetic\<close>

fun float_mul :: "pyfloat \<Rightarrow> pyfloat \<Rightarrow> pyfloat" where
  "float_mul NaN y = NaN"
| "float_mul x NaN = NaN"
| "float_mul (Infinity s) (Infinity t) = Infinity (s \<noteq> t)"
| "float_mul (Infinity s) (Finite t n) = (if n = 0 then NaN else Infinity (s \<noteq> t))"
| "float_mul (Finite s m) (Infinity t) = (if m = 0 then NaN else Infinity (s \<noteq> t))"
| "float_mul (Finite s m) (Finite t n) = to_double (s \<noteq> t) (m * n)"

fun float_div :: "pyfloat \<Rightarrow> pyfloat \<Rightarrow> pyfloat" where
  "float_div NaN y = NaN"
| "float_div x NaN = NaN"
| "float_div (Infinity s) (Infinity t) = NaN"
| "float_div (Infinity s) (Finite t n) = Infinity (s \<noteq> t)"
| "float_div (Finite s m) (Infinity t) = Finite (s \<noteq> t) 0"
| "float_div (Finite s m) (Finite t n) = to_double (s \<noteq> t) (m / n)"

fun is_zero :: "pyfloat \<Rightarrow> bool" where
  "is_zero (Finite s m) = (m = 0)"
| "is_zero x = False"

text \<open>Python's \<open>/\<close> on floats raises on a zero divisor of either sign.\<close>

definition float_truediv :: "pyfloat \<Rightarrow> pyfloat \<Rightarrow> py_error + pyfloat" where
  "float_truediv x y = (if is_zero y then Inl ZeroDivisionError else Inr (float_div x y))"

subsection \<open>Comparisons\<close>

text \<open>
  Python compares an int with a float by their exact values. \<open>exact_value\<close> is the exact value
  of a number; every comparison with NaN is false.
\<close>

datatype xval = XNaN | XNegInf | XFin rat | XPosInf

fun exact_value :: "pynum \<Rightarrow> xval" where
  "exact_value (PyInt n) = XFin (of_int n)"
| "exact_value (PyFloat (Finite s m)) = XFin (if s then - m else m)"
| "exact_value (PyFloat (Infinity s)) = (if s then XNegInf else XPosInf)"
| "exact_value (PyFloat NaN) = XNaN"

fun x_lt :: "xval \<Rightarrow> xval \<Rightarrow> bool" where
  "x_lt XNaN y = False"
| "x_lt x XNaN = False"
| "x_lt x XNegInf = False"
| "x_lt XNegInf y = True"
| "x_lt XPosInf y = False"
| "x_lt x XPosInf = True"
| "x_lt (XFin a) (XFin b) = (a < b)"

fun x_le :: "xval \<Rightarrow> xval \<Rightarrow> bool" where
  "x_le XNaN y = False"
| "x_le x XNaN = False"
| "x_le XNegInf y = True"
| "x_le x XNegInf = False"
| "x_le x XPosInf = True"
| "x_le XPosInf y = False"
| "x_le (XFin a) (XFin b) = (a \<le> b)"

definition py_lt :: "pynum \<Rightarrow> pynum \<Rightarrow> bool" where
  "py_lt a b = x_lt (exact_value a) (exact_value b)"

definition py_le :: "pynum \<Rightarrow> pynum \<Rightarrow> bool" where
  "py_le a b = x_le (exact_value a) (exact_value b)"

definition py_gt :: "pynum \<Rightarrow> pynum \<Rightarrow> bool" where
  "py_gt a b = x_lt (exact_value b) (exact_value a)"

subsection \<open>Formatted strings\<close>

text \<open>
  An f-string is modelled as the sequence of its parts: literal text, and each
  replacement field with its value and format specification. \<open>FInt\<close> is \<open>{n}\<close> for an
  int, \<open>FIntComma\<close> and \<open>FFloatComma\<close> are \<open>{x:,}\<close> for an int and for a float,
  \<open>FFloatComma2\<close> is \<open>{x:,.2f}\<close>.
\<close>

datatype fpart = Lit string | FInt int | FIntComma int | FFloatComma pyfloat | FFloatComma2 pyfloat

type_synonym fstring = "fpart list"

fun fmt_comma :: "pynum \<Rightarrow> fpart" where
  "fmt_comma (PyInt n) = FIntComma n"
| "fmt_comma (PyFloat x) = FFloatComma x"

section \<open>The customer store\<close>

text \<open>
  A row of the \<open>customers\<close> table as the SELECT returns it:
  id, name, phone, address, credit\_score, pre\_approved\_limit, monthly\_salary.
  The table is the partial function from an id to its row. A customer id is a Python
  int, as the table's INTEGER PRIMARY KEY is; other JSON values are outside the model.
\<close>

type_synonym row = "int \<times> string \<times> string \<times> string \<times> int \<times> int \<times> int"

type_synonym database = "int \<Rightarrow> row option"

record kyc =
  phone :: string
  address :: string

record customer =
  cust_id :: int
  name :: string
  kyc_details :: kyc
  credit_score :: int
  pre_approved_limit :: int
  monthly_salary :: int

text \<open>
  An SQLite INTEGER is a signed 64-bit number: sqlite3 raises OverflowError when a Python
  int outside that range is bound to a parameter of a statement.
\<close>

definition sqlite_int :: "int \<Rightarrow> bool" where
  "sqlite_int n = (- (2 ^ 63) \<le> n \<and> n < 2 ^ 63)"

text \<open>
  \<open>get_customer_by_id\<close>: the SELECT with the id bound to its parameter, then the dict
  built from the row, or \<open>None\<close> when there is no row.
\<close>

definition get_customer_by_id :: "database \<Rightarrow> int \<Rightarrow> py_error + customer option" where
  "get_customer_by_id db customer_id =
     (if \<not> sqlite_int customer_id then Inl OverflowError
      else case db customer_id of
        Some (r0, r1, r2, r3, r4, r5, r6) \<Rightarrow>
          Inr (Some \<lparr>cust_id = r0, name = r1, kyc_details = \<lparr>phone = r2, address = r3\<rparr>,
                     credit_score = r4, pre_approved_limit = r5, monthly_salary = r6\<rparr>)
      | None \<Rightarrow> Inr None)"

section \<open>The underwriting agent\<close>

text \<open>
  The dict returned by \<open>underwriting_agent\<close>: a key that is absent from the dict is
  \<open>None\<close> in the record.
\<close>

record decision =
  status :: string
  reason :: fstring
  interest_rate :: "pyfloat option"
  tenure_months :: "int option"
  emi :: "pyfloat option"
  salary_verification_required :: "bool option"

definition mk_decision :: "string \<Rightarrow> fstring \<Rightarrow> decision" where
  "mk_decision s r = \<lparr>status = s, reason = r, interest_rate = None, tenure_months = None,
                       emi = None, salary_verification_required = None\<rparr>"

text \<open>
  The salary check of the last branch: total amount, EMI and EMI ceiling, in the order
  the source computes them, with the exceptions the arithmetic can raise.
\<close>

definition stretch_emi :: "pynum \<Rightarrow> int \<Rightarrow> py_error + pyfloat" where
  "stretch_emi loan_amount tenure =
     (case to_float loan_amount of
        Inl e \<Rightarrow> Inl e
      | Inr a \<Rightarrow>
          (case int_to_float tenure of
             Inl e \<Rightarrow> Inl e
           | Inr t \<Rightarrow> float_truediv (float_mul a (float_lit (112 / 100))) t))"

definition stretch_max_emi :: "int \<Rightarrow> py_error + pyfloat" where
  "stretch_max_emi salary =
     (case int_to_float salary of
        Inl e \<Rightarrow> Inl e
      | Inr s \<Rightarrow> Inr (float_mul s (float_lit (1 / 2))))"

definition stretch_tier :: "customer \<Rightarrow> pynum \<Rightarrow> int \<Rightarrow> py_error + decision option" where
  "stretch_tier c loan_amount tenure =
     (case stretch_emi loan_amount tenure of
        Inl e \<Rightarrow> Inl e
      | Inr emi_v \<Rightarrow>
          (case stretch_max_emi (monthly_salary c) of
             Inl e \<Rightarrow> Inl e
           | Inr max_emi \<Rightarrow>
               if py_le (PyFloat emi_v) (PyFloat max_emi)
               then Inr (Some \<lparr>status = ''approved'',
                      reason = [Lit ''Salary verification passed. EMI (Rs'', FFloatComma2 emi_v,
                                Lit '') is within 50% of monthly salary (Rs'',
                                FIntComma (monthly_salary c), Lit '')''],
                      interest_rate = Some (float_lit 12),
                      tenure_months = Some tenure,
                      emi = Some emi_v,
                      salary_verification_required = Some True\<rparr>)
               else Inr (Some (mk_decision ''rejected''
                      [Lit ''EMI (Rs'', FFloatComma2 emi_v,
                       Lit '') exceeds 50% of monthly salary (Rs'', FFloatComma2 max_emi,
                       Lit '')'']))))"

text \<open>
  The body of \<open>underwriting_agent\<close> after the lookup of the customer. The result is an
  exception, or the returned value: a dict, or Python's \<open>None\<close> when control falls off
  the end of the function.
\<close>

definition underwriting_rules :: "customer option \<Rightarrow> pynum \<Rightarrow> int \<Rightarrow> py_error + decision option" where
  "underwriting_rules customer loan_amount tenure =
     (case customer of
        None \<Rightarrow> Inr (Some (mk_decision ''error'' [Lit ''Customer not found'']))
      | Some c \<Rightarrow>
          if credit_score c < 700
          then Inr (Some (mk_decision ''rejected''
                 [Lit ''Credit score ('', FInt (credit_score c),
                  Lit '') is below the minimum requirement of 700'']))
          else if py_gt loan_amount (PyInt (2 * pre_approved_limit c))
          then Inr (Some (mk_decision ''rejected''
                 [Lit ''Requested loan amount (Rs'', fmt_comma loan_amount,
                  Lit '') exceeds 2x the pre-approved limit (Rs'',
                  FIntComma (2 * pre_approved_limit c), Lit '')'']))
          else if py_le loan_amount (PyInt (pre_approved_limit c))
          then Inr (Some ((mk_decision ''approved''
                 [Lit ''Loan amount (Rs'', fmt_comma loan_amount,
                  Lit '') is within pre-approved limit (Rs'',
                  FIntComma (pre_approved_limit c), Lit '')''])
                 \<lparr>interest_rate := Some (float_lit (105 / 10)), tenure_months := Some tenure\<rparr>))
          else if py_lt (PyInt (pre_approved_limit c)) loan_amount
                  \<and> py_le loan_amount (PyInt (2 * pre_approved_limit c))
          then stretch_tier c loan_amount tenure
          else Inr None)"

text \<open>
  \<open>underwriting_agent(customer_id, loan_amount, tenure_months)\<close>, as a function of the
  table: an exception of the lookup ends the call.
\<close>

definition underwriting_agent :: "database \<Rightarrow> int \<Rightarrow> pynum \<Rightarrow> int \<Rightarrow> py_error + decision option" where
  "underwriting_agent db customer_id loan_amount tenure =
     (case get_customer_by_id db customer_id of
        Inl e \<Rightarrow> Inl e
      | Inr customer \<Rightarrow> underwriting_rules customer loan_amount tenure)"

text \<open>The default tenure of the source's signature.\<close>

definition underwriting_agent_default :: "database \<Rightarrow> int \<Rightarrow> pynum \<Rightarrow> py_error + decision option" where
  "underwriting_agent_default db customer_id loan_amount =
     underwriting_agent db customer_id loan_amount 60"

text \<open>
  \<open>if underwriting_result.get("salary_verification_required")\<close>: a missing key reads as
  \<open>None\<close>, which is false.
\<close>

definition salary_flag :: "decision \<Rightarrow> bool" where
  "salary_flag d = (case salary_verification_required d of Some b \<Rightarrow> b | None \<Rightarrow> False)"

text \<open>The three customers that \<open>init_db\<close> inserts into an empty table, with the ids
  that AUTOINCREMENT gives them.\<close>

definition default_customers :: database where
  "default_customers customer_id =
     (if customer_id = 1 then
        Some (1, ''Rajesh Kumar'', ''+91-9876543210'',
              ''123 MG Road, Bangalore, Karnataka - 560001'', 750, 500000, 80000)
      else if customer_id = 2 then
        Some (2, ''Priya Sharma'', ''+91-9123456789'',
              ''456 Park Street, Kolkata, West Bengal - 700016'', 650, 200000, 50000)
      else if customer_id = 3 then
        Some (3, ''Amit Patel'', ''+91-9988776655'',
              ''789 Marine Drive, Mumbai, Maharashtra - 400020'', 720, 300000, 120000)
      else None)"

section \<open>Verification and orchestration\<close>

text \<open>
  The dict returned by \<open>verification_agent\<close> has one of two shapes, told apart by its
  \<open>status\<close> key: \<open>{"status": "error", "message": m}\<close> or
  \<open>{"status": "success", "name": n, "kyc_details": k}\<close>.
\<close>

datatype verification = Verification_error string | Verification_success string kyc

definition verification_agent :: "database \<Rightarrow> int \<Rightarrow> py_error + verification" where
  "verification_agent db customer_id =
     (case get_customer_by_id db customer_id of
        Inl e \<Rightarrow> Inl e
      | Inr None \<Rightarrow> Inr (Verification_error ''Customer not found'')
      | Inr (Some c) \<Rightarrow> Inr (Verification_success (name c) (kyc_details c)))"

text \<open>
  \<open>sanction_letter_generator\<close> writes a PDF file inside a \<open>try\<close> block and returns the
  file name, or \<open>None\<close> when the customer is missing or when anything in the block
  raises, the lookup included. The outcome of the rest of the block (file system, clock,
  PDF library) is a parameter of the model.
\<close>

type_synonym pdf_writer = "customer \<Rightarrow> pyfloat \<Rightarrow> pyfloat \<Rightarrow> int \<Rightarrow> string \<Rightarrow> string option"

definition sanction_letter_generator ::
  "pdf_writer \<Rightarrow> database \<Rightarrow> int \<Rightarrow> pyfloat \<Rightarrow> pyfloat \<Rightarrow> int \<Rightarrow> string \<Rightarrow> string option" where
  "sanction_letter_generator write_pdf db customer_id loan_amount rate tenure approval_status =
     (case get_customer_by_id db customer_id of
        Inl e \<Rightarrow> None
      | Inr None \<Rightarrow> None
      | Inr (Some c) \<Rightarrow> write_pdf c loan_amount rate tenure approval_status)"

text \<open>The pictographs that open the log lines, as the bytes of the source file.\<close>

definition icon_robot :: string where
  "icon_robot = map char_of [0xEF, 0xA3, 0xBF, 0xC3, 0xBC, 0xC2, 0xA7, 0xC3, 0xB1 :: nat]"

definition icon_search :: string where
  "icon_search = map char_of [0xEF, 0xA3, 0xBF, 0xC3, 0xBC, 0xC3, 0xAE, 0xC3, 0xA7 :: nat]"

definition icon_cross :: string where
  "icon_cross = map char_of [0xE2, 0x80, 0x9A, 0xC3, 0xB9, 0xC3, 0xA5 :: nat]"

definition icon_check :: string where
  "icon_check = map char_of [0xE2, 0x80, 0x9A, 0xC3, 0xBA, 0xC3, 0x96 :: nat]"

definition icon_clipboard :: string where
  "icon_clipboard = map char_of [0xEF, 0xA3, 0xBF, 0xC3, 0xBC, 0xC3, 0xAC, 0xC3, 0xA3 :: nat]"

definition icon_chart :: string where
  "icon_chart = map char_of [0xEF, 0xA3, 0xBF, 0xC3, 0xBC, 0xC3, 0xAC, 0xC3, 0xA4 :: nat]"

definition icon_card :: string where
  "icon_card = map char_of [0xEF, 0xA3, 0xBF, 0xC3, 0xBC, 0xC3, 0xAD, 0xE2, 0x89, 0xA5 :: nat]"

definition icon_money :: string where
  "icon_money = map char_of [0xEF, 0xA3, 0xBF, 0xC3, 0xBC, 0xC3, 0xAD, 0xE2, 0x88, 0x9E :: nat]"

definition icon_page :: string where
  "icon_page = map char_of [0xEF, 0xA3, 0xBF, 0xC3, 0xBC, 0xC3, 0xAC, 0xC3, 0x91 :: nat]"

definition icon_lens :: string where
  "icon_lens = map char_of [0xEF, 0xA3, 0xBF, 0xC3, 0xBC, 0xC3, 0xAE, 0xC3, 0xA9 :: nat]"

definition icon_pin :: string where
  "icon_pin = map char_of [0xEF, 0xA3, 0xBF, 0xC3, 0xBC, 0xC3, 0xAC, 0xC3, 0xA5 :: nat]"

definition icon_memo :: string where
  "icon_memo = map char_of [0xEF, 0xA3, 0xBF, 0xC3, 0xBC, 0xC3, 0xAC, 0xC3, 0xB9 :: nat]"

definition icon_party :: string where
  "icon_party = map char_of [0xEF, 0xA3, 0xBF, 0xC3, 0xBC, 0xC3, 0xA9, 0xC3, 0xA2 :: nat]"

text \<open>
  The agents that one run of \<open>start_simulation\<close> calls, in order, and the response: the
  log that is returned as JSON, or the exception that ends the request.
\<close>

datatype agent_call =
  Call_verification int
| Call_underwriting int pynum
| Call_sanction_letter int pyfloat pyfloat int string

record simulation =
  calls :: "agent_call list"
  response :: "py_error + fstring list"

definition divider :: fstring where
  "divider = [Lit ''---'']"

text \<open>The part of \<open>start_simulation\<close> after the underwriting result has been logged.\<close>

definition conclude :: "pdf_writer \<Rightarrow> database \<Rightarrow> int \<Rightarrow> pyfloat \<Rightarrow> decision \<Rightarrow> fstring list \<Rightarrow> simulation" where
  "conclude write_pdf db customer_id loan_amount d log1 =
     (if status d = ''rejected'' then
        \<lparr>calls = [Call_verification customer_id, Call_underwriting customer_id (PyFloat loan_amount)],
         response = Inr (log1 @
           [[Lit (icon_cross @ '' Master Agent: Loan application has been REJECTED.'')],
            Lit (icon_pin @ '' Master Agent: Reason - '') # reason d,
            [Lit (icon_robot @ '' Master Agent: Thank you for choosing Tata Capital. You may reapply after improving your eligibility.'')]])\<rparr>
      else if status d = ''approved'' then
        (case (interest_rate d, tenure_months d) of
           (Some rate, Some tenure) \<Rightarrow>
             (let filename = sanction_letter_generator write_pdf db customer_id loan_amount
                               rate tenure ''approved'';
                  log2 = log1 @
                    [[Lit (icon_check @ '' Master Agent: Loan application has been APPROVED! '' @ icon_party)],
                     [Lit (icon_memo @ '' Master Agent: Generating sanction letter...'')]]
              in \<lparr>calls = [Call_verification customer_id,
                           Call_underwriting customer_id (PyFloat loan_amount),
                           Call_sanction_letter customer_id loan_amount rate tenure ''approved''],
                  response = Inr
                    (case filename of
                       Some f \<Rightarrow>
                         if f \<noteq> [] then
                           log2 @
                           [[Lit (icon_check @ '' Sanction Letter Agent: PDF generated successfully!'')],
                            [Lit (icon_page @ '' Sanction Letter Agent: <a href='' @ [CHR 0x27] @ ''/download/''),
                             Lit f,
                             Lit ([CHR 0x27] @ '' target='' @ [CHR 0x27] @ ''_blank'' @ [CHR 0x27]
                                  @ '' class='' @ [CHR 0x27] @ ''pdf-link'' @ [CHR 0x27]
                                  @ ''>Download Your Sanction Letter</a>'')],
                            divider,
                            [Lit (icon_robot @ '' Master Agent: Congratulations! Your loan has been approved. Please download your sanction letter above.'')]]
                         else
                           log2 @ [[Lit (icon_cross @ '' Sanction Letter Agent: Error generating PDF. Please contact support.'')]]
                     | None \<Rightarrow>
                         log2 @ [[Lit (icon_cross @ '' Sanction Letter Agent: Error generating PDF. Please contact support.'')]])\<rparr>)
         | _ \<Rightarrow>
             \<lparr>calls = [Call_verification customer_id, Call_underwriting customer_id (PyFloat loan_amount)],
              response = Inl KeyError\<rparr>)
      else
        \<lparr>calls = [Call_verification customer_id, Call_underwriting customer_id (PyFloat loan_amount)],
         response = Inr log1\<rparr>)"

text \<open>
  \<open>start_simulation\<close>, from the parsed request (\<open>loan_amount\<close> is the result of
  \<open>float(...)\<close>) to the response. The underwriting agent is called with its default
  tenure of 60 months.
\<close>

definition start_simulation :: "pdf_writer \<Rightarrow> database \<Rightarrow> int \<Rightarrow> pyfloat \<Rightarrow> simulation" where
  "start_simulation write_pdf db customer_id loan_amount =
     (let log0 =
        [[Lit (icon_robot @ '' Master Agent: Hello! Welcome to Tata Capital AI Loan Processing System.'')],
         [Lit (icon_robot @ '' Master Agent: Processing loan application for Customer ID: ''), FInt customer_id],
         [Lit (icon_robot @ '' Master Agent: Requested Loan Amount: Rs''), FFloatComma loan_amount],
         divider,
         [Lit (icon_search @ '' Master Agent: Initiating KYC verification...'')]]
      in case verification_agent db customer_id of
        Inl e \<Rightarrow>
          \<lparr>calls = [Call_verification customer_id], response = Inl e\<rparr>
      | Inr (Verification_error message) \<Rightarrow>
          \<lparr>calls = [Call_verification customer_id],
           response = Inr (log0 @ [[Lit (icon_cross @ '' Verification Agent: ''), Lit message]])\<rparr>
      | Inr (Verification_success vname vkyc) \<Rightarrow>
          (let log1 = log0 @
             [[Lit (icon_check @ '' Verification Agent: KYC verification successful!'')],
              [Lit (icon_clipboard @ '' Verification Agent: Customer Name - ''), Lit vname],
              [Lit (icon_clipboard @ '' Verification Agent: Phone - ''), Lit (phone vkyc)],
              [Lit (icon_clipboard @ '' Verification Agent: Address - ''), Lit (address vkyc)],
              divider,
              [Lit (icon_chart @ '' Master Agent: Forwarding to Underwriting Agent for credit assessment...'')]]
           in case underwriting_agent_default db customer_id (PyFloat loan_amount) of
             Inl e \<Rightarrow>
               \<lparr>calls = [Call_verification customer_id, Call_underwriting customer_id (PyFloat loan_amount)],
                response = Inl e\<rparr>
           | Inr underwriting_result \<Rightarrow>
               (case get_customer_by_id db customer_id of
                  Inl e \<Rightarrow>
                    \<lparr>calls = [Call_verification customer_id, Call_underwriting customer_id (PyFloat loan_amount)],
                     response = Inl e\<rparr>
                | Inr None \<Rightarrow>
                    \<lparr>calls = [Call_verification customer_id, Call_underwriting customer_id (PyFloat loan_amount)],
                     response = Inl TypeError\<rparr>
                | Inr (Some c) \<Rightarrow>
                    (case underwriting_result of
                       None \<Rightarrow>
                         \<lparr>calls = [Call_verification customer_id, Call_underwriting customer_id (PyFloat loan_amount)],
                          response = Inl AttributeError\<rparr>
                     | Some d \<Rightarrow>
                         conclude write_pdf db customer_id loan_amount d
                           (log1 @
                            [[Lit (icon_card @ '' Underwriting Agent: Credit Score - ''), FInt (credit_score c)],
                             [Lit (icon_money @ '' Underwriting Agent: Pre-approved Limit - Rs''),
                              FIntComma (pre_approved_limit c)]]
                            @ (if salary_flag d
                               then [[Lit (icon_page @ '' Underwriting Agent: Salary verification required (Monthly Salary: Rs''),
                                      FIntComma (monthly_salary c), Lit '')'']]
                               else [])
                            @ [Lit (icon_lens @ '' Underwriting Agent: '') # reason d,
                               divider])))))"

text \<open>Two outcomes of the PDF block: it raises (and the generator returns \<open>None\<close>),
  or it writes a file.\<close>

definition pdf_fails :: pdf_writer where
  "pdf_fails c loan_amount rate tenure approval_status = None"

definition pdf_written :: pdf_writer where
  "pdf_written c loan_amount rate tenure approval_status = Some ''Sanction_Letter.pdf''"

section \<open>The program as a state transformer\<close>

text \<open>
  What the program can change: the rows of the \<open>customers\<close> table, the last id that
  AUTOINCREMENT has handed out, and the files in the directory of generated letters.
  A function of the source that touches them takes the world and returns its result
  together with the world it leaves behind.
\<close>

record world =
  table :: database
  last_id :: int
  letters :: "string list"

text \<open>The SELECT reads the table and writes nothing.\<close>

definition get_customer_by_id_io :: "world \<Rightarrow> int \<Rightarrow> (py_error + customer option) \<times> world" where
  "get_customer_by_id_io w customer_id = (get_customer_by_id (table w) customer_id, w)"

text \<open>
  \<open>add_customer_to_db\<close>: INSERT, commit, and the new row's id. Binding an int outside
  the SQLite range raises before anything is written; a used-up id sequence makes the
  INSERT fail.
\<close>

definition add_customer_to_db_io ::
  "world \<Rightarrow> string \<Rightarrow> string \<Rightarrow> string \<Rightarrow> int \<Rightarrow> int \<Rightarrow> int \<Rightarrow> (py_error + int) \<times> world" where
  "add_customer_to_db_io w name_v phone_v address_v score limit salary =
     (if \<not> (sqlite_int score \<and> sqlite_int limit \<and> sqlite_int salary) then (Inl OverflowError, w)
      else if \<not> sqlite_int (last_id w + 1) then (Inl OperationalError, w)
      else (Inr (last_id w + 1),
            w\<lparr>table := (table w)(last_id w + 1 :=
                  Some (last_id w + 1, name_v, phone_v, address_v, score, limit, salary)),
              last_id := last_id w + 1\<rparr>))"

text \<open>\<open>underwriting_agent\<close>: the lookup, then the rules on what it returned.\<close>

definition underwriting_agent_io ::
  "world \<Rightarrow> int \<Rightarrow> pynum \<Rightarrow> int \<Rightarrow> (py_error + decision option) \<times> world" where
  "underwriting_agent_io w customer_id loan_amount tenure =
     (case get_customer_by_id_io w customer_id of
        (Inl e, w1) \<Rightarrow> (Inl e, w1)
      | (Inr customer, w1) \<Rightarrow> (underwriting_rules customer loan_amount tenure, w1))"

text \<open>\<open>sanction_letter_generator\<close>: a letter that is written is a new file.\<close>

definition sanction_letter_generator_io ::
  "pdf_writer \<Rightarrow> world \<Rightarrow> int \<Rightarrow> pyfloat \<Rightarrow> pyfloat \<Rightarrow> int \<Rightarrow> string \<Rightarrow> string option \<times> world" where
  "sanction_letter_generator_io write_pdf w customer_id loan_amount rate tenure approval_status =
     (case sanction_letter_generator write_pdf (table w) customer_id loan_amount rate tenure
             approval_status of
        None \<Rightarrow> (None, w)
      | Some f \<Rightarrow> (Some f, w\<lparr>letters := f # letters w\<rparr>))"

text \<open>The world after \<open>init_db\<close> on an empty database.\<close>

definition initial_world :: world where
  "initial_world = \<lparr>table = default_customers, last_id = 3, letters = []\<rparr>"

text \<open>The dicts that \<open>get_customer_by_id\<close> builds for the three default customers.\<close>

definition customer_1 :: customer where
  "customer_1 = \<lparr>cust_id = 1, name = ''Rajesh Kumar'',
     kyc_details = \<lparr>phone = ''+91-9876543210'',
                    address = ''123 MG Road, Bangalore, Karnataka - 560001''\<rparr>,
     credit_score = 750, pre_approved_limit = 500000, monthly_salary = 80000\<rparr>"

definition customer_2 :: customer where
  "customer_2 = \<lparr>cust_id = 2, name = ''Priya Sharma'',
     kyc_details = \<lparr>phone = ''+91-9123456789'',
                    address = ''456 Park Street, Kolkata, West Bengal - 700016''\<rparr>,
     credit_score = 650, pre_approved_limit = 200000, monthly_salary = 50000\<rparr>"

definition customer_3 :: customer where
  "customer_3 = \<lparr>cust_id = 3, name = ''Amit Patel'',
     kyc_details = \<lparr>phone = ''+91-9988776655'',
                    address = ''789 Marine Drive, Mumbai, Maharashtra - 400020''\<rparr>,
     credit_score = 720, pre_approved_limit = 300000, monthly_salary = 120000\<rparr>"

section \<open>Properties of the underwriting agent\<close>

subsection \<open>The default customers\<close>

lemma get_customer_1: "get_customer_by_id default_customers 1 = Inr (Some customer_1)"
  by (simp add: get_customer_by_id_def sqlite_int_def default_customers_def customer_1_def)

lemma get_customer_2: "get_customer_by_id default_customers 2 = Inr (Some customer_2)"
  by (simp add: get_customer_by_id_def sqlite_int_def default_customers_def customer_2_def)

lemma get_customer_3: "get_customer_by_id default_customers 3 = Inr (Some customer_3)"
  by (simp add: get_customer_by_id_def sqlite_int_def default_customers_def customer_3_def)

subsection \<open>The float literals of the source\<close>

lemma to_double_eval:
  assumes "round_double m = r" and "\<not> double_overflow r"
  shows "to_double s m = Finite s r"
  using assms by (simp add: to_double_def)

lemma round_double_10_5: "round_double (21 / 2) = 21 / 2"
  by code_simp

lemma round_double_12: "round_double 12 = 12"
  by code_simp

lemma round_double_half: "round_double (1 / 2) = 1 / 2"
  by code_simp

lemma round_double_1_12: "round_double (28 / 25) = 1261007895663739 / 1125899906842624"
  by code_simp

lemma float_lit_10_5: "float_lit (21 / 2) = Finite False (21 / 2)"
  by (simp add: float_lit_def to_double_eval [OF round_double_10_5] double_overflow_def)

lemma float_lit_12: "float_lit 12 = Finite False 12"
  by (simp add: float_lit_def to_double_eval [OF round_double_12] double_overflow_def)

lemma float_lit_half: "float_lit (1 / 2) = Finite False (1 / 2)"
  by (simp add: float_lit_def to_double_eval [OF round_double_half] double_overflow_def)

lemma float_lit_1_12: "float_lit (28 / 25) = Finite False (1261007895663739 / 1125899906842624)"
  by (simp add: float_lit_def to_double_eval [OF round_double_1_12] double_overflow_def)

subsection \<open>Ints that convert to a float\<close>

lemma pow2_powi: "pow2 k = 2 powi k"
  by (simp add: pow2_def power_int_def field_simps)

lemma pow2_pos: "0 < pow2 k"
  by (simp add: pow2_powi)

lemma pow2_add: "pow2 (a + b) = pow2 a * pow2 b"
  by (simp add: pow2_powi power_int_add)

lemma pow2_nat: "pow2 (int k) = 2 ^ k"
  by (simp add: pow2_def)

lemma pow2_mono: "a \<le> b \<Longrightarrow> pow2 a \<le> pow2 b"
  by (simp add: pow2_powi power_int_increasing)

lemma bit_length_bounds:
  "0 < n \<Longrightarrow> 2 ^ (bit_length n - 1) \<le> n \<and> n < 2 ^ bit_length n"
proof (induction n rule: bit_length.induct)
  case (1 n)
  show ?case
  proof (cases "n div 2 = 0")
    case True
    with "1.prems" have "n = 1" by presburger
    then show ?thesis by simp
  next
    case False
    then have pos: "0 < n div 2" by simp
    from "1.prems" have n0: "n \<noteq> 0" by simp
    from "1.IH" [OF n0 pos]
    have lo: "2 ^ (bit_length (n div 2) - 1) \<le> n div 2"
      and hi: "n div 2 < 2 ^ bit_length (n div 2)" by simp_all
    from pos have bl: "0 < bit_length (n div 2)" by simp
    have eq: "bit_length n = Suc (bit_length (n div 2))"
      using n0 by simp
    from bl have "(2::nat) ^ (bit_length n - 1) = 2 * 2 ^ (bit_length (n div 2) - 1)"
      unfolding eq by (cases "bit_length (n div 2)") simp_all
    with lo have 1: "2 ^ (bit_length n - 1) \<le> n" by presburger
    from hi have "n < 2 * 2 ^ bit_length (n div 2)" by presburger
    then have 2: "n < 2 ^ bit_length n" unfolding eq by simp
    from 1 2 show ?thesis by simp
  qed
qed

lemma round_half_even_ge: "of_int a \<le> x \<Longrightarrow> a \<le> round_half_even x"
proof -
  assume "of_int a \<le> x"
  then have "a \<le> \<lfloor>x\<rfloor>" by (simp add: le_floor_iff)
  then show ?thesis by (simp add: round_half_even_def Let_def)
qed

lemma round_half_even_le: "x \<le> of_int b \<Longrightarrow> round_half_even x \<le> b"
proof -
  assume xb: "x \<le> of_int b"
  show ?thesis
  proof (cases "x = of_int b")
    case True
    then show ?thesis by (simp add: round_half_even_def Let_def)
  next
    case False
    with xb have "x < of_int b" by simp
    then have "\<lfloor>x\<rfloor> < b" by (simp add: floor_less_iff)
    then have "\<lfloor>x\<rfloor> + 1 \<le> b" by simp
    then show ?thesis by (simp add: round_half_even_def Let_def)
  qed
qed


lemma round_double_int_bounds:
  assumes "0 < n"
  shows "pow2 (int (bit_length (nat n)) - 1) \<le> round_double (of_int n)
         \<and> round_double (of_int n) \<le> pow2 (int (bit_length (nat n)))"
proof -
  define e where "e = int (bit_length (nat n)) - 1"
  define q :: rat where "q = of_int n"
  from assms have npos: "0 < nat n" by simp
  from bit_length_bounds [OF npos]
  have lo: "2 ^ (bit_length (nat n) - 1) \<le> nat n" and hi: "nat n < 2 ^ bit_length (nat n)"
    by simp_all
  from npos have blpos: "0 < bit_length (nat n)" by simp
  then have e_nat: "e = int (bit_length (nat n) - 1)" and e0: "0 \<le> e"
    by (simp_all add: e_def)
  have q1: "1 \<le> q" using assms by (simp add: q_def)
  have qn: "q = of_nat (nat n)" using assms by (simp add: q_def)
  have qlo: "pow2 e \<le> q"
  proof -
    have "(of_nat (2 ^ (bit_length (nat n) - 1)) :: rat) \<le> of_nat (nat n)"
      using lo by (simp only: of_nat_le_iff)
    then show ?thesis by (simp add: e_nat pow2_nat qn)
  qed
  have qhi: "q \<le> pow2 (e + 1)"
  proof -
    have "(of_nat (nat n) :: rat) \<le> of_nat (2 ^ bit_length (nat n))"
      using hi by (simp only: of_nat_le_iff less_imp_le)
    moreover have "e + 1 = int (bit_length (nat n))" by (simp add: e_def)
    ultimately show ?thesis by (simp add: pow2_nat qn)
  qed
  have il: "ilog2 q = e"
    using q1 by (simp add: ilog2_def e_def q_def)
  have ex: "max (ilog2 q - 52) (- 1074) = e - 52"
    using il e0 by simp
  have q0: "q \<noteq> 0" using q1 by simp
  have rd: "round_double q = of_int (round_half_even (q / pow2 (e - 52))) * pow2 (e - 52)"
    using q0 ex by (simp add: round_double_def Let_def)
  have p: "0 < pow2 (e - 52)" by (rule pow2_pos)
  have split_lo: "pow2 e = 2 ^ 52 * pow2 (e - 52)"
  proof -
    have "e = 52 + (e - 52)" by simp
    then have "pow2 e = pow2 52 * pow2 (e - 52)" by (metis pow2_add)
    moreover have "pow2 52 = 2 ^ 52" by (simp add: pow2_def)
    ultimately show ?thesis by (simp only:)
  qed
  have split_hi: "pow2 (e + 1) = 2 ^ 53 * pow2 (e - 52)"
  proof -
    have "e + 1 = 53 + (e - 52)" by simp
    then have "pow2 (e + 1) = pow2 53 * pow2 (e - 52)" by (metis pow2_add)
    moreover have "pow2 53 = 2 ^ 53" by (simp add: pow2_def)
    ultimately show ?thesis by (simp only:)
  qed
  have s_lo: "of_int (2 ^ 52) \<le> q / pow2 (e - 52)"
    using qlo p by (simp add: split_lo pos_le_divide_eq)
  have s_hi: "q / pow2 (e - 52) \<le> of_int (2 ^ 53)"
    using qhi p by (simp add: split_hi pos_divide_le_eq)
  have r_lo: "2 ^ 52 \<le> round_half_even (q / pow2 (e - 52))"
    by (rule round_half_even_ge [OF s_lo])
  have r_hi: "round_half_even (q / pow2 (e - 52)) \<le> 2 ^ 53"
    by (rule round_half_even_le [OF s_hi])
  have "of_int (2 ^ 52) * pow2 (e - 52) \<le> of_int (round_half_even (q / pow2 (e - 52))) * pow2 (e - 52)"
    using r_lo p by (simp only: mult_le_cancel_right_pos of_int_le_iff)
  then have 1: "pow2 e \<le> round_double q"
    by (simp add: rd split_lo)
  have "of_int (round_half_even (q / pow2 (e - 52))) * pow2 (e - 52) \<le> of_int (2 ^ 53) * pow2 (e - 52)"
    using r_hi p by (simp only: mult_le_cancel_right_pos of_int_le_iff)
  then have 2: "round_double q \<le> pow2 (e + 1)"
    by (simp add: rd split_hi)
  from 1 2 show ?thesis by (simp add: e_def q_def)
qed

lemma int_to_float_ok:
  assumes "\<bar>n\<bar> < 2 ^ 1023"
  shows "int_to_float n = Inr (Finite (n < 0) (round_double (of_int \<bar>n\<bar>)))
         \<and> (n \<noteq> 0 \<longrightarrow> 0 < round_double (of_int \<bar>n\<bar>))"
proof (cases "n = 0")
  case True
  then show ?thesis
    by (simp add: int_to_float_def round_double_def double_overflow_def)
next
  case False
  then have m: "0 < \<bar>n\<bar>" by simp
  define b where "b = bit_length (nat \<bar>n\<bar>)"
  from m have npos: "0 < nat \<bar>n\<bar>" by simp
  from bit_length_bounds [OF npos] have lo: "2 ^ (b - 1) \<le> nat \<bar>n\<bar>"
    by (simp add: b_def)
  from assms have "nat \<bar>n\<bar> < 2 ^ 1023"
    by (simp add: nat_less_iff)
  with lo have "(2::nat) ^ (b - 1) < 2 ^ 1023" by (rule le_less_trans)
  then have "b - 1 < 1023" by (simp only: power_strict_increasing_iff one_less_numeral_iff semiring_norm)
  then have b: "int b \<le> 1023" by simp
  from round_double_int_bounds [OF m]
  have lo': "pow2 (int b - 1) \<le> round_double (of_int \<bar>n\<bar>)"
    and hi': "round_double (of_int \<bar>n\<bar>) \<le> pow2 (int b)"
    by (simp_all add: b_def)
  from pow2_mono [OF b] hi' have "round_double (of_int \<bar>n\<bar>) \<le> pow2 1023"
    by (rule order_trans [rotated])
  moreover have "pow2 1023 < 2 ^ 1024" by (simp add: pow2_def)
  ultimately have no: "\<not> double_overflow (round_double (of_int \<bar>n\<bar>))"
    by (simp add: double_overflow_def)
  from lo' pow2_pos [of "int b - 1"] have pos: "0 < round_double (of_int \<bar>n\<bar>)"
    by (rule less_le_trans [rotated])
  from no pos show ?thesis
    by (simp add: int_to_float_def Let_def)
qed

subsection \<open>The order of the rules\<close>

lemma x_le_not_gt_double:
  assumes "x_le x (XFin (of_int l))" and "0 \<le> l"
  shows "\<not> x_lt (XFin (of_int (2 * l))) x"
  using assms by (cases x) auto

lemma within_limit_not_over_ceiling:
  assumes "py_le a (PyInt l)" and "0 \<le> l"
  shows "\<not> py_gt a (PyInt (2 * l))"
  using assms x_le_not_gt_double [of "exact_value a" l]
  by (simp add: py_le_def py_gt_def)

lemma within_limit_result:
  assumes "get_customer_by_id db cid = Inr (Some c)" and "700 \<le> credit_score c"
    and "py_le loan_amount (PyInt (pre_approved_limit c))" and "0 \<le> pre_approved_limit c"
  shows "underwriting_agent db cid loan_amount tenure =
           Inr (Some \<lparr>status = ''approved'',
                      reason = [Lit ''Loan amount (Rs'', fmt_comma loan_amount,
                                Lit '') is within pre-approved limit (Rs'',
                                FIntComma (pre_approved_limit c), Lit '')''],
                      interest_rate = Some (Finite False (21 / 2)),
                      tenure_months = Some tenure, emi = None,
                      salary_verification_required = None\<rparr>)"
  using assms within_limit_not_over_ceiling [of loan_amount "pre_approved_limit c"]
  by (simp add: underwriting_agent_def underwriting_rules_def mk_decision_def float_lit_10_5)

lemma stretch_tier_cases:
  assumes "stretch_tier c loan_amount tenure = Inr (Some d)"
  shows "status d = ''rejected'' \<and> interest_rate d = None \<and> tenure_months d = None
           \<and> emi d = None \<and> salary_verification_required d = None
         \<or> status d = ''approved'' \<and> interest_rate d \<noteq> None \<and> tenure_months d = Some tenure"
  using assms
  by (auto simp: stretch_tier_def mk_decision_def split: sum.splits if_splits)

lemma decision_cases:
  assumes "underwriting_agent db cid loan_amount tenure = Inr (Some d)"
  shows "(status d = ''error'' \<or> status d = ''rejected'') \<and> interest_rate d = None
           \<and> tenure_months d = None \<and> emi d = None \<and> salary_verification_required d = None
         \<or> status d = ''approved'' \<and> interest_rate d \<noteq> None \<and> tenure_months d = Some tenure"
proof (cases "get_customer_by_id db cid")
  case (Inl e)
  with assms show ?thesis
    by (simp add: underwriting_agent_def)
next
  case (Inr r)
  show ?thesis
  proof (cases r)
    case None
    with Inr assms show ?thesis
      by (auto simp: underwriting_agent_def underwriting_rules_def mk_decision_def)
  next
    case (Some c)
    with Inr assms stretch_tier_cases [of c loan_amount tenure d] show ?thesis
      by (auto simp: underwriting_agent_def underwriting_rules_def mk_decision_def split: if_splits)
  qed
qed

subsection \<open>The salary check\<close>

lemma x_lt_not_le: "x_lt a b \<Longrightarrow> \<not> x_le b a"
  by (cases a; cases b) auto

lemma x_le_not_lt: "x_le a b \<Longrightarrow> \<not> x_lt b a"
  by (cases a; cases b) auto

lemma reaches_stretch_tier:
  assumes "get_customer_by_id db cid = Inr (Some c)" and "700 \<le> credit_score c"
    and "py_lt (PyInt (pre_approved_limit c)) loan_amount"
    and "py_le loan_amount (PyInt (2 * pre_approved_limit c))"
  shows "underwriting_agent db cid loan_amount tenure = stretch_tier c loan_amount tenure"
proof -
  from assms(3) have "\<not> py_le loan_amount (PyInt (pre_approved_limit c))"
    unfolding py_lt_def py_le_def by (rule x_lt_not_le)
  moreover from assms(4) have "\<not> py_gt loan_amount (PyInt (2 * pre_approved_limit c))"
    unfolding py_gt_def py_le_def by (rule x_le_not_lt)
  ultimately show ?thesis
    using assms by (simp add: underwriting_agent_def underwriting_rules_def)
qed

lemma stretch_amount_converts:
  assumes "py_lt (PyInt l) loan_amount" and "py_le loan_amount (PyInt (2 * l))"
    and "l < 2 ^ 1022"
  shows "\<exists>a. to_float loan_amount = Inr a"
proof (cases loan_amount)
  case (PyInt n)
  with assms have "l < n" and "n \<le> 2 * l"
    by (simp_all add: py_lt_def py_le_def)
  with assms(3) have "\<bar>n\<bar> < 2 ^ 1023" by simp
  from int_to_float_ok [OF this] PyInt show ?thesis by simp
next
  case (PyFloat x)
  then show ?thesis by simp
qed

lemma stretch_tier_value:
  assumes "to_float loan_amount = Inr a"
    and "0 < tenure" and "tenure < 2 ^ 1023" and "\<bar>monthly_salary c\<bar> < 2 ^ 1023"
  shows "\<exists>t s. int_to_float tenure = Inr t \<and> int_to_float (monthly_salary c) = Inr s
           \<and> stretch_tier c loan_amount tenure =
               Inr (Some
                 (if py_le (PyFloat (float_div (float_mul a (float_lit (112 / 100))) t))
                           (PyFloat (float_mul s (float_lit (1 / 2))))
                  then \<lparr>status = ''approved'',
                        reason = [Lit ''Salary verification passed. EMI (Rs'',
                                  FFloatComma2 (float_div (float_mul a (float_lit (112 / 100))) t),
                                  Lit '') is within 50% of monthly salary (Rs'',
                                  FIntComma (monthly_salary c), Lit '')''],
                        interest_rate = Some (Finite False 12),
                        tenure_months = Some tenure,
                        emi = Some (float_div (float_mul a (float_lit (112 / 100))) t),
                        salary_verification_required = Some True\<rparr>
                  else \<lparr>status = ''rejected'',
                        reason = [Lit ''EMI (Rs'',
                                  FFloatComma2 (float_div (float_mul a (float_lit (112 / 100))) t),
                                  Lit '') exceeds 50% of monthly salary (Rs'',
                                  FFloatComma2 (float_mul s (float_lit (1 / 2))), Lit '')''],
                        interest_rate = None, tenure_months = None, emi = None,
                        salary_verification_required = None\<rparr>))"
proof -
  from assms(2,3) have tb: "\<bar>tenure\<bar> < 2 ^ 1023" by simp
  from int_to_float_ok [OF tb] assms(2)
  have t: "int_to_float tenure = Inr (Finite False (round_double (of_int \<bar>tenure\<bar>)))"
    and tpos: "0 < round_double (of_int \<bar>tenure\<bar>)" by simp_all
  from int_to_float_ok [OF assms(4)]
  have s: "int_to_float (monthly_salary c) =
      Inr (Finite (monthly_salary c < 0) (round_double (of_int \<bar>monthly_salary c\<bar>)))"
    by simp
  from tpos have nz: "\<not> is_zero (Finite False (round_double (of_int \<bar>tenure\<bar>)))"
    by simp
  show ?thesis
    using assms(1) t s nz
    by (simp add: stretch_tier_def stretch_emi_def stretch_max_emi_def float_truediv_def
        mk_decision_def float_lit_12)
qed

subsection \<open>Evaluating the arithmetic on numerals\<close>

lemma bit_length_One: "bit_length (Suc 0) = Suc 0"
  by simp

lemma bit_length_Bit0: "bit_length (numeral (Num.Bit0 n)) = Suc (bit_length (numeral n))"
proof -
  have "(numeral (Num.Bit0 n) :: nat) = 2 * numeral n"
    unfolding mult_2 by (rule numeral_Bit0)
  then show ?thesis by (subst bit_length.simps) simp
qed

lemma bit_length_Bit1: "bit_length (numeral (Num.Bit1 n)) = Suc (bit_length (numeral n))"
proof -
  have "(numeral (Num.Bit1 n) :: nat) = 2 * numeral n + 1"
    unfolding mult_2 by (rule numeral_Bit1)
  then show ?thesis by (subst bit_length.simps) simp
qed

lemma floor_numeral_quotient: "\<lfloor>(numeral a :: rat) / numeral b\<rfloor> = numeral a div numeral b"
  using floor_divide_of_int_eq [of "numeral a" "numeral b", where ?'a = rat] by simp

lemmas round_eval = round_double_def ilog2_def pow2_def round_half_even_def Let_def
  bit_length_One bit_length_Bit0 bit_length_Bit1 floor_numeral_quotient

lemma int_to_float_eval:
  assumes "round_double (of_int \<bar>n\<bar>) = r" and "\<not> double_overflow r"
  shows "int_to_float n = Inr (Finite (n < 0) r)"
  using assms by (simp add: int_to_float_def)

lemma round_double_60: "round_double 60 = 60"
  by (simp del: bit_length.simps add: round_eval)

lemma round_double_120000: "round_double 120000 = 120000"
  by (simp del: bit_length.simps add: round_eval)

lemma round_double_60000: "round_double 60000 = 60000"
  by (simp del: bit_length.simps add: round_eval)

lemma round_double_total:
  "round_double (35465847065542659375 / 70368744177664) = 8658654068736001 / 17179869184"
  by (simp del: bit_length.simps add: round_eval)

lemma round_double_emi:
  "round_double (8658654068736001 / 1030792151040) = 4617948836659201 / 549755813888"
  by (simp del: bit_length.simps add: round_eval)

lemma int_to_float_60: "int_to_float 60 = Inr (Finite False 60)"
  using int_to_float_eval [of 60 60] by (simp add: round_double_60 double_overflow_def)

lemma int_to_float_120000: "int_to_float 120000 = Inr (Finite False 120000)"
  using int_to_float_eval [of 120000 120000] by (simp add: round_double_120000 double_overflow_def)

lemma scenario_total:
  "float_mul (Finite False 450000) (float_lit (112 / 100)) =
     Finite False (8658654068736001 / 17179869184)"
  by (simp add: float_lit_1_12 to_double_eval [OF round_double_total] double_overflow_def)

lemma scenario_emi:
  "float_div (Finite False (8658654068736001 / 17179869184)) (Finite False 60) =
     Finite False (4617948836659201 / 549755813888)"
  by (simp add: to_double_eval [OF round_double_emi] double_overflow_def)

lemma scenario_max_emi:
  "float_mul (Finite False 120000) (float_lit (1 / 2)) = Finite False 60000"
  by (simp add: float_lit_half to_double_eval [OF round_double_60000] double_overflow_def)

subsection \<open>No fall-through\<close>

lemma stretch_tier_not_None: "stretch_tier c loan_amount tenure \<noteq> Inr None"
  by (simp add: stretch_tier_def split: sum.splits)

lemma positive_not_le_imp_lt:
  assumes "x_lt (XFin 0) x" and "\<not> x_le x (XFin b)"
  shows "x_lt (XFin b) x"
  using assms by (cases x) auto

lemma positive_not_gt_imp_le:
  assumes "x_lt (XFin 0) x" and "\<not> x_lt (XFin b) x"
  shows "x_le x (XFin b)"
  using assms by (cases x) auto

lemma final_guard_holds:
  assumes "py_gt loan_amount (PyInt 0)"
    and "\<not> py_gt loan_amount (PyInt (2 * l))" and "\<not> py_le loan_amount (PyInt l)"
  shows "py_lt (PyInt l) loan_amount \<and> py_le loan_amount (PyInt (2 * l))"
  using assms positive_not_le_imp_lt [of "exact_value loan_amount" "of_int l"]
    positive_not_gt_imp_le [of "exact_value loan_amount" "of_int (2 * l)"]
  by (simp add: py_gt_def py_le_def py_lt_def)

lemma guards_exclusive:
  assumes "py_gt loan_amount (PyInt 0)"
  shows "\<not> (py_gt loan_amount (PyInt (2 * l)) \<and> py_le loan_amount (PyInt l))"
    and "\<not> (py_gt loan_amount (PyInt (2 * l))
            \<and> py_lt (PyInt l) loan_amount \<and> py_le loan_amount (PyInt (2 * l)))"
    and "\<not> (py_le loan_amount (PyInt l)
            \<and> py_lt (PyInt l) loan_amount \<and> py_le loan_amount (PyInt (2 * l)))"
  using assms
  by (cases "exact_value loan_amount"; simp add: py_gt_def py_le_def py_lt_def; linarith)+

lemma nan_falls_through:
  assumes "get_customer_by_id db cid = Inr (Some c)" and "700 \<le> credit_score c"
  shows "underwriting_agent db cid (PyFloat NaN) tenure = Inr None"
  using assms by (simp add: underwriting_agent_def underwriting_rules_def py_gt_def py_le_def py_lt_def)

lemma underwriting_returns_decision:
  assumes g: "get_customer_by_id db cid = Inr (Some c)"
    and pos: "py_gt loan_amount (PyInt 0)"
    and t: "0 < tenure" "tenure < 2 ^ 1023"
    and s: "\<bar>monthly_salary c\<bar> < 2 ^ 1023" and l: "pre_approved_limit c < 2 ^ 1022"
  shows "\<exists>d. underwriting_agent db cid loan_amount tenure = Inr (Some d)
             \<and> (status d = ''approved'' \<or> status d = ''rejected'')"
proof (cases "credit_score c < 700 \<or> py_gt loan_amount (PyInt (2 * pre_approved_limit c))
               \<or> py_le loan_amount (PyInt (pre_approved_limit c))")
  case True
  with g show ?thesis
    by (auto simp: underwriting_agent_def underwriting_rules_def mk_decision_def)
next
  case False
  then have cs: "700 \<le> credit_score c"
    and n2: "\<not> py_gt loan_amount (PyInt (2 * pre_approved_limit c))"
    and n3: "\<not> py_le loan_amount (PyInt (pre_approved_limit c))" by simp_all
  from final_guard_holds [OF pos n2 n3]
  have g4: "py_lt (PyInt (pre_approved_limit c)) loan_amount"
    and g5: "py_le loan_amount (PyInt (2 * pre_approved_limit c))" by simp_all
  from stretch_amount_converts [OF g4 g5 l]
  obtain a where a: "to_float loan_amount = Inr a" by blast
  from reaches_stretch_tier [OF g cs g4 g5]
  have r: "underwriting_agent db cid loan_amount tenure = stretch_tier c loan_amount tenure" .
  from stretch_tier_value [OF a t s] obtain d where
    "stretch_tier c loan_amount tenure = Inr (Some d)"
    and "status d = ''approved'' \<or> status d = ''rejected''"
    by (auto split: if_splits)
  with r show ?thesis by simp
qed

subsection \<open>The amount at twice the limit\<close>

lemma round_double_80000: "round_double 80000 = 80000"
  by (simp del: bit_length.simps add: round_eval)

lemma round_double_40000: "round_double 40000 = 40000"
  by (simp del: bit_length.simps add: round_eval)

lemma round_double_total_2x:
  "round_double (19703248369745921875 / 17592186044416) = 1120000"
  by (simp del: bit_length.simps add: round_eval)

lemma round_double_emi_2x:
  "round_double (56000 / 3) = 5131054262954667 / 274877906944"
  by (simp del: bit_length.simps add: round_eval)

lemma int_to_float_80000: "int_to_float 80000 = Inr (Finite False 80000)"
  using int_to_float_eval [of 80000 80000] by (simp add: round_double_80000 double_overflow_def)

lemma stretch_tier_reason:
  assumes "stretch_tier c loan_amount tenure = Inr (Some d)"
  shows "hd (reason d) = Lit ''Salary verification passed. EMI (Rs''
         \<or> hd (reason d) = Lit ''EMI (Rs''"
  using assms
  by (auto simp: stretch_tier_def mk_decision_def split: sum.splits if_splits)

subsection \<open>The rules\<close>

text \<open>
  C3. For every stored profile with a credit score below 700 the agent rejects, whatever
  the amount, the tenure and the salary are, and the reason is the credit-floor message
  with the customer's score and the threshold 700; the later rules are not consulted, so
  the result does not depend on the amount or the tenure.
\<close>

theorem credit_floor_rejects:
  assumes "get_customer_by_id db cid = Inr (Some c)" and "credit_score c < 700"
  shows "underwriting_agent db cid loan_amount tenure =
           Inr (Some \<lparr>status = ''rejected'',
                      reason = [Lit ''Credit score ('', FInt (credit_score c),
                                Lit '') is below the minimum requirement of 700''],
                      interest_rate = None, tenure_months = None, emi = None,
                      salary_verification_required = None\<rparr>)"
  using assms by (simp add: underwriting_agent_def underwriting_rules_def mk_decision_def)

theorem credit_floor_rejects_witness:
  "credit_score customer_2 < 700
   \<and> underwriting_agent default_customers 2 (PyFloat (Finite False 100000)) 60 =
       Inr (Some \<lparr>status = ''rejected'',
                  reason = [Lit ''Credit score ('', FInt 650,
                            Lit '') is below the minimum requirement of 700''],
                  interest_rate = None, tenure_months = None, emi = None,
                  salary_verification_required = None\<rparr>)"
proof -
  have s: "credit_score customer_2 < 700"
    by (simp add: customer_2_def)
  from credit_floor_rejects [OF get_customer_2 s, of "PyFloat (Finite False 100000)" 60] s
  show ?thesis by (simp add: customer_2_def)
qed

text \<open>
  C2. For every stored profile with a credit score of at least 700 and every request whose
  amount is at most the pre-approved limit (equality included), the agent approves at the
  interest rate 10.5 (the float \<open>21/2\<close>, which is exact in binary64), for the requested
  tenure, with no EMI and with the salary-verification flag reading false; the salary is
  not consulted: the same request for a profile that differs only in its salary gets the
  same decision. The pre-approved limit is a non-negative amount, as the data model says.
\<close>

theorem within_limit_approved:
  assumes "get_customer_by_id db cid = Inr (Some c)" and "700 \<le> credit_score c"
    and "py_le loan_amount (PyInt (pre_approved_limit c))" and "0 \<le> pre_approved_limit c"
  shows "(\<exists>d. underwriting_agent db cid loan_amount tenure = Inr (Some d)
              \<and> status d = ''approved''
              \<and> interest_rate d = Some (Finite False (21 / 2))
              \<and> tenure_months d = Some tenure
              \<and> emi d = None
              \<and> \<not> salary_flag d)
         \<and> (\<forall>db' s. get_customer_by_id db' cid = Inr (Some (c\<lparr>monthly_salary := s\<rparr>)) \<longrightarrow>
                underwriting_agent db' cid loan_amount tenure =
                underwriting_agent db cid loan_amount tenure)"
proof -
  have here: "underwriting_agent db cid loan_amount tenure =
           Inr (Some \<lparr>status = ''approved'',
                      reason = [Lit ''Loan amount (Rs'', fmt_comma loan_amount,
                                Lit '') is within pre-approved limit (Rs'',
                                FIntComma (pre_approved_limit c), Lit '')''],
                      interest_rate = Some (Finite False (21 / 2)),
                      tenure_months = Some tenure, emi = None,
                      salary_verification_required = None\<rparr>)"
    using assms by (rule within_limit_result)
  have there: "underwriting_agent db' cid loan_amount tenure =
                 underwriting_agent db cid loan_amount tenure"
    if "get_customer_by_id db' cid = Inr (Some (c\<lparr>monthly_salary := s\<rparr>))" for db' s
    using within_limit_result [OF that, of loan_amount tenure] assms here by simp
  from here there show ?thesis
    by (simp add: salary_flag_def)
qed

text \<open>
  C4. An amount strictly above twice the pre-approved limit is rejected for every credit
  score, salary and tenure, with no terms in the decision; for a score of at least 700 the
  reason is the ceiling message with both values. The comparison is strict: at exactly
  twice a positive limit (score at least 700) the agent does not give the ceiling
  rejection but runs the salary check of the last branch, whose outcome is the approval at
  12.0 or the EMI rejection; and at exactly the limit it approves under the within-limit
  rule.
\<close>

theorem hard_ceiling:
  assumes "get_customer_by_id db cid = Inr (Some c)"
  shows "(py_gt loan_amount (PyInt (2 * pre_approved_limit c)) \<longrightarrow>
            (\<exists>d. underwriting_agent db cid loan_amount tenure = Inr (Some d)
                 \<and> status d = ''rejected''
                 \<and> interest_rate d = None \<and> tenure_months d = None \<and> emi d = None
                 \<and> (700 \<le> credit_score c \<longrightarrow>
                      reason d = [Lit ''Requested loan amount (Rs'', fmt_comma loan_amount,
                                  Lit '') exceeds 2x the pre-approved limit (Rs'',
                                  FIntComma (2 * pre_approved_limit c), Lit '')''])))
         \<and> (700 \<le> credit_score c \<and> 0 < pre_approved_limit c
              \<and> exact_value loan_amount = XFin (of_int (2 * pre_approved_limit c)) \<longrightarrow>
            (\<forall>d. underwriting_agent db cid loan_amount tenure = Inr (Some d) \<longrightarrow>
                 hd (reason d) \<noteq> Lit ''Requested loan amount (Rs'')
            \<and> (0 < tenure \<and> tenure < 2 ^ 1023 \<and> \<bar>monthly_salary c\<bar> < 2 ^ 1023
                 \<and> pre_approved_limit c < 2 ^ 1022 \<longrightarrow>
               (\<exists>a t s. to_float loan_amount = Inr a \<and> int_to_float tenure = Inr t
                 \<and> int_to_float (monthly_salary c) = Inr s
                 \<and> underwriting_agent db cid loan_amount tenure =
                     Inr (Some
                       (if py_le (PyFloat (float_div (float_mul a (float_lit (112 / 100))) t))
                                 (PyFloat (float_mul s (float_lit (1 / 2))))
                        then \<lparr>status = ''approved'',
                              reason = [Lit ''Salary verification passed. EMI (Rs'',
                                        FFloatComma2 (float_div (float_mul a (float_lit (112 / 100))) t),
                                        Lit '') is within 50% of monthly salary (Rs'',
                                        FIntComma (monthly_salary c), Lit '')''],
                              interest_rate = Some (Finite False 12),
                              tenure_months = Some tenure,
                              emi = Some (float_div (float_mul a (float_lit (112 / 100))) t),
                              salary_verification_required = Some True\<rparr>
                        else \<lparr>status = ''rejected'',
                              reason = [Lit ''EMI (Rs'',
                                        FFloatComma2 (float_div (float_mul a (float_lit (112 / 100))) t),
                                        Lit '') exceeds 50% of monthly salary (Rs'',
                                        FFloatComma2 (float_mul s (float_lit (1 / 2))), Lit '')''],
                              interest_rate = None, tenure_months = None, emi = None,
                              salary_verification_required = None\<rparr>)))))
         \<and> (700 \<le> credit_score c \<and> 0 \<le> pre_approved_limit c
              \<and> exact_value loan_amount = XFin (of_int (pre_approved_limit c)) \<longrightarrow>
            underwriting_agent db cid loan_amount tenure =
              Inr (Some \<lparr>status = ''approved'',
                      reason = [Lit ''Loan amount (Rs'', fmt_comma loan_amount,
                                Lit '') is within pre-approved limit (Rs'',
                                FIntComma (pre_approved_limit c), Lit '')''],
                      interest_rate = Some (Finite False (21 / 2)),
                      tenure_months = Some tenure, emi = None,
                      salary_verification_required = None\<rparr>))"
proof (intro conjI impI allI)
  assume "py_gt loan_amount (PyInt (2 * pre_approved_limit c))"
  with assms show "\<exists>d. underwriting_agent db cid loan_amount tenure = Inr (Some d)
                 \<and> status d = ''rejected''
                 \<and> interest_rate d = None \<and> tenure_months d = None \<and> emi d = None
                 \<and> (700 \<le> credit_score c \<longrightarrow>
                      reason d = [Lit ''Requested loan amount (Rs'', fmt_comma loan_amount,
                                  Lit '') exceeds 2x the pre-approved limit (Rs'',
                                  FIntComma (2 * pre_approved_limit c), Lit '')''])"
    by (simp add: underwriting_agent_def underwriting_rules_def mk_decision_def)
next
  fix d
  assume h: "700 \<le> credit_score c \<and> 0 < pre_approved_limit c
              \<and> exact_value loan_amount = XFin (of_int (2 * pre_approved_limit c))"
    and r: "underwriting_agent db cid loan_amount tenure = Inr (Some d)"
  from h have g4: "py_lt (PyInt (pre_approved_limit c)) loan_amount"
    and g5: "py_le loan_amount (PyInt (2 * pre_approved_limit c))"
    by (simp_all add: py_lt_def py_le_def)
  from h have cs: "700 \<le> credit_score c" by simp
  from reaches_stretch_tier [OF assms cs g4 g5, of tenure] r
  have "stretch_tier c loan_amount tenure = Inr (Some d)" by simp
  from stretch_tier_reason [OF this]
  show "hd (reason d) \<noteq> Lit ''Requested loan amount (Rs''" by auto
next
  assume h: "700 \<le> credit_score c \<and> 0 < pre_approved_limit c
              \<and> exact_value loan_amount = XFin (of_int (2 * pre_approved_limit c))"
    and b: "0 < tenure \<and> tenure < 2 ^ 1023 \<and> \<bar>monthly_salary c\<bar> < 2 ^ 1023
                 \<and> pre_approved_limit c < 2 ^ 1022"
  from h have g4: "py_lt (PyInt (pre_approved_limit c)) loan_amount"
    and g5: "py_le loan_amount (PyInt (2 * pre_approved_limit c))"
    by (simp_all add: py_lt_def py_le_def)
  from h have cs: "700 \<le> credit_score c" by simp
  from b have t1: "0 < tenure" and t2: "tenure < 2 ^ 1023"
    and sb: "\<bar>monthly_salary c\<bar> < 2 ^ 1023" and lb: "pre_approved_limit c < 2 ^ 1022"
    by simp_all
  from stretch_amount_converts [OF g4 g5 lb]
  obtain a where a: "to_float loan_amount = Inr a" by blast
  from reaches_stretch_tier [OF assms cs g4 g5]
  have r: "underwriting_agent db cid loan_amount tenure = stretch_tier c loan_amount tenure" .
  from stretch_tier_value [OF a t1 t2 sb] a
  show "\<exists>a t s. to_float loan_amount = Inr a \<and> int_to_float tenure = Inr t
                 \<and> int_to_float (monthly_salary c) = Inr s
                 \<and> underwriting_agent db cid loan_amount tenure =
                     Inr (Some
                       (if py_le (PyFloat (float_div (float_mul a (float_lit (112 / 100))) t))
                                 (PyFloat (float_mul s (float_lit (1 / 2))))
                        then \<lparr>status = ''approved'',
                              reason = [Lit ''Salary verification passed. EMI (Rs'',
                                        FFloatComma2 (float_div (float_mul a (float_lit (112 / 100))) t),
                                        Lit '') is within 50% of monthly salary (Rs'',
                                        FIntComma (monthly_salary c), Lit '')''],
                              interest_rate = Some (Finite False 12),
                              tenure_months = Some tenure,
                              emi = Some (float_div (float_mul a (float_lit (112 / 100))) t),
                              salary_verification_required = Some True\<rparr>
                        else \<lparr>status = ''rejected'',
                              reason = [Lit ''EMI (Rs'',
                                        FFloatComma2 (float_div (float_mul a (float_lit (112 / 100))) t),
                                        Lit '') exceeds 50% of monthly salary (Rs'',
                                        FFloatComma2 (float_mul s (float_lit (1 / 2))), Lit '')''],
                              interest_rate = None, tenure_months = None, emi = None,
                              salary_verification_required = None\<rparr>))"
    unfolding r by blast
next
  assume a: "700 \<le> credit_score c \<and> 0 \<le> pre_approved_limit c
              \<and> exact_value loan_amount = XFin (of_int (pre_approved_limit c))"
  then have "py_le loan_amount (PyInt (pre_approved_limit c))"
    by (simp add: py_le_def)
  with assms a show "underwriting_agent db cid loan_amount tenure =
              Inr (Some \<lparr>status = ''approved'',
                      reason = [Lit ''Loan amount (Rs'', fmt_comma loan_amount,
                                Lit '') is within pre-approved limit (Rs'',
                                FIntComma (pre_approved_limit c), Lit '')''],
                      interest_rate = Some (Finite False (21 / 2)),
                      tenure_months = Some tenure, emi = None,
                      salary_verification_required = None\<rparr>)"
    by (simp add: within_limit_result)
qed

text \<open>
  C5. A rejected decision carries no interest rate, no tenure and no EMI; a decision that
  carries any of the three is approved.
\<close>

theorem rejected_carries_no_terms:
  assumes "underwriting_agent db cid loan_amount tenure = Inr (Some d)"
  shows "(status d = ''rejected'' \<longrightarrow>
            interest_rate d = None \<and> tenure_months d = None \<and> emi d = None)
         \<and> (interest_rate d \<noteq> None \<or> tenure_months d \<noteq> None \<or> emi d \<noteq> None \<longrightarrow>
            status d = ''approved'')"
  using decision_cases [OF assms] by auto

theorem within_limit_approved_witness:
  "700 \<le> credit_score customer_1
   \<and> py_le (PyFloat (Finite False 500000)) (PyInt (pre_approved_limit customer_1))
   \<and> 0 \<le> pre_approved_limit customer_1
   \<and> (\<exists>d. underwriting_agent default_customers 1 (PyFloat (Finite False 500000)) 60 = Inr (Some d)
            \<and> status d = ''approved''
            \<and> interest_rate d = Some (Finite False (21 / 2))
            \<and> tenure_months d = Some 60
            \<and> emi d = None
            \<and> \<not> salary_flag d)"
proof -
  have a: "700 \<le> credit_score customer_1"
    by (simp add: customer_1_def)
  have b: "py_le (PyFloat (Finite False 500000)) (PyInt (pre_approved_limit customer_1))"
    by (simp add: customer_1_def py_le_def)
  have c: "0 \<le> pre_approved_limit customer_1"
    by (simp add: customer_1_def)
  from within_limit_approved [OF get_customer_1 a b c, of 60] a b c
  show ?thesis by blast
qed

theorem hard_ceiling_witness:
  "(\<exists>d. underwriting_agent default_customers 1 (PyFloat (Finite False 1100000)) 60 = Inr (Some d)
        \<and> status d = ''rejected''
        \<and> reason d = [Lit ''Requested loan amount (Rs'', FFloatComma (Finite False 1100000),
                       Lit '') exceeds 2x the pre-approved limit (Rs'',
                       FIntComma 1000000, Lit '')''])
   \<and> underwriting_agent default_customers 1 (PyFloat (Finite False 1000000)) 60 =
       Inr (Some \<lparr>status = ''approved'',
               reason = [Lit ''Salary verification passed. EMI (Rs'',
                         FFloatComma2 (Finite False (5131054262954667 / 274877906944)),
                         Lit '') is within 50% of monthly salary (Rs'',
                         FIntComma 80000, Lit '')''],
               interest_rate = Some (Finite False 12),
               tenure_months = Some 60,
               emi = Some (Finite False (5131054262954667 / 274877906944)),
               salary_verification_required = Some True\<rparr>)
   \<and> (\<exists>d. underwriting_agent default_customers 1 (PyInt 500000) 60 = Inr (Some d)
        \<and> status d = ''approved'' \<and> interest_rate d = Some (Finite False (21 / 2)))"
proof -
  have cs: "credit_score customer_1 = 750" and l: "pre_approved_limit customer_1 = 500000"
    and sal: "monthly_salary customer_1 = 80000"
    by (simp_all add: customer_1_def)
  have a: "py_gt (PyFloat (Finite False 1100000)) (PyInt (2 * pre_approved_limit customer_1))"
    by (simp add: l py_gt_def)
  have b: "700 \<le> credit_score customer_1 \<and> 0 < pre_approved_limit customer_1
      \<and> exact_value (PyFloat (Finite False 1000000)) = XFin (of_int (2 * pre_approved_limit customer_1))"
    by (simp add: cs l)
  have b': "(0::int) < 60 \<and> (60::int) < 2 ^ 1023 \<and> \<bar>monthly_salary customer_1\<bar> < 2 ^ 1023
      \<and> pre_approved_limit customer_1 < 2 ^ 1022"
    by (simp add: sal l)
  have c: "700 \<le> credit_score customer_1 \<and> 0 \<le> pre_approved_limit customer_1
      \<and> exact_value (PyInt 500000) = XFin (of_int (pre_approved_limit customer_1))"
    by (simp add: cs l)
  from hard_ceiling [OF get_customer_1, of "PyFloat (Finite False 1100000)" 60] a
  have 1: "\<exists>d. underwriting_agent default_customers 1 (PyFloat (Finite False 1100000)) 60 = Inr (Some d)
        \<and> status d = ''rejected''
        \<and> reason d = [Lit ''Requested loan amount (Rs'', FFloatComma (Finite False 1100000),
                       Lit '') exceeds 2x the pre-approved limit (Rs'',
                       FIntComma 1000000, Lit '')'']"
    by (auto simp: cs l)
  from hard_ceiling [OF get_customer_1, of "PyFloat (Finite False 1000000)" 60] b b'
  have 2: "underwriting_agent default_customers 1 (PyFloat (Finite False 1000000)) 60 =
       Inr (Some \<lparr>status = ''approved'',
               reason = [Lit ''Salary verification passed. EMI (Rs'',
                         FFloatComma2 (Finite False (5131054262954667 / 274877906944)),
                         Lit '') is within 50% of monthly salary (Rs'',
                         FIntComma 80000, Lit '')''],
               interest_rate = Some (Finite False 12),
               tenure_months = Some 60,
               emi = Some (Finite False (5131054262954667 / 274877906944)),
               salary_verification_required = Some True\<rparr>)"
    by (simp add: sal int_to_float_60 int_to_float_80000 float_lit_1_12 float_lit_half
        to_double_eval [OF round_double_total_2x] to_double_eval [OF round_double_emi_2x]
        to_double_eval [OF round_double_40000] double_overflow_def py_le_def
        cong del: if_weak_cong)
  from hard_ceiling [OF get_customer_1, of "PyInt 500000" 60] c
  have 3: "\<exists>d. underwriting_agent default_customers 1 (PyInt 500000) 60 = Inr (Some d)
        \<and> status d = ''approved'' \<and> interest_rate d = Some (Finite False (21 / 2))"
    by simp
  from 1 2 3 show ?thesis by blast
qed

theorem rejected_carries_no_terms_witness:
  "(\<exists>d. underwriting_agent default_customers 2 (PyInt 100000) 60 = Inr (Some d)
       \<and> status d = ''rejected''
       \<and> interest_rate d = None \<and> tenure_months d = None \<and> emi d = None)
   \<and> (\<exists>d. underwriting_agent default_customers 1 (PyInt 100000) 60 = Inr (Some d)
       \<and> interest_rate d \<noteq> None \<and> status d = ''approved'')"
proof -
  have s: "credit_score customer_2 < 700"
    by (simp add: customer_2_def)
  have r: "underwriting_agent default_customers 2 (PyInt 100000) 60 =
       Inr (Some \<lparr>status = ''rejected'',
                  reason = [Lit ''Credit score ('', FInt (credit_score customer_2),
                            Lit '') is below the minimum requirement of 700''],
                  interest_rate = None, tenure_months = None, emi = None,
                  salary_verification_required = None\<rparr>)"
    using get_customer_2 s by (simp add: underwriting_agent_def underwriting_rules_def mk_decision_def)
  have a: "underwriting_agent default_customers 1 (PyInt 100000) 60 =
       Inr (Some \<lparr>status = ''approved'',
                  reason = [Lit ''Loan amount (Rs'', fmt_comma (PyInt 100000),
                            Lit '') is within pre-approved limit (Rs'',
                            FIntComma (pre_approved_limit customer_1), Lit '')''],
                  interest_rate = Some (Finite False (21 / 2)),
                  tenure_months = Some 60, emi = None,
                  salary_verification_required = None\<rparr>)"
    by (rule within_limit_result [OF get_customer_1]) (simp_all add: customer_1_def py_le_def)
  from rejected_carries_no_terms [OF r] r
  have 1: "\<exists>d. underwriting_agent default_customers 2 (PyInt 100000) 60 = Inr (Some d)
       \<and> status d = ''rejected''
       \<and> interest_rate d = None \<and> tenure_months d = None \<and> emi d = None"
    by simp
  from rejected_carries_no_terms [OF a] a
  have 2: "\<exists>d. underwriting_agent default_customers 1 (PyInt 100000) 60 = Inr (Some d)
       \<and> interest_rate d \<noteq> None \<and> status d = ''approved''"
    by simp
  from 1 2 show ?thesis by blast
qed

text \<open>
  C1. For every stored profile with a credit score of at least 700 and every request whose
  amount is above the pre-approved limit and at most twice the limit, the agent computes
  the EMI as (amount times 1.12) divided by the tenure and the ceiling as salary times 0.5,
  in float arithmetic, and compares them at full precision: when the EMI is at most the
  ceiling it approves at the interest rate 12.0 with the salary-verification flag set and
  the computed EMI in the decision; otherwise it rejects, and the reason carries the
  computed EMI and the ceiling. The tenure is a positive number of months, and the
  numbers are in the range that converts to a float.
\<close>

theorem stretch_tier_decision:
  assumes "get_customer_by_id db cid = Inr (Some c)" and "700 \<le> credit_score c"
    and "py_lt (PyInt (pre_approved_limit c)) loan_amount"
    and "py_le loan_amount (PyInt (2 * pre_approved_limit c))"
    and "0 < tenure" and "tenure < 2 ^ 1023"
    and "\<bar>monthly_salary c\<bar> < 2 ^ 1023" and "pre_approved_limit c < 2 ^ 1022"
  shows "\<exists>a t s. to_float loan_amount = Inr a \<and> int_to_float tenure = Inr t
           \<and> int_to_float (monthly_salary c) = Inr s
           \<and> underwriting_agent db cid loan_amount tenure =
               Inr (Some
                 (if py_le (PyFloat (float_div (float_mul a (float_lit (112 / 100))) t))
                           (PyFloat (float_mul s (float_lit (1 / 2))))
                  then \<lparr>status = ''approved'',
                        reason = [Lit ''Salary verification passed. EMI (Rs'',
                                  FFloatComma2 (float_div (float_mul a (float_lit (112 / 100))) t),
                                  Lit '') is within 50% of monthly salary (Rs'',
                                  FIntComma (monthly_salary c), Lit '')''],
                        interest_rate = Some (Finite False 12),
                        tenure_months = Some tenure,
                        emi = Some (float_div (float_mul a (float_lit (112 / 100))) t),
                        salary_verification_required = Some True\<rparr>
                  else \<lparr>status = ''rejected'',
                        reason = [Lit ''EMI (Rs'',
                                  FFloatComma2 (float_div (float_mul a (float_lit (112 / 100))) t),
                                  Lit '') exceeds 50% of monthly salary (Rs'',
                                  FFloatComma2 (float_mul s (float_lit (1 / 2))), Lit '')''],
                        interest_rate = None, tenure_months = None, emi = None,
                        salary_verification_required = None\<rparr>))"
proof -
  from stretch_amount_converts [OF assms(3,4,8)]
  obtain a where a: "to_float loan_amount = Inr a" by blast
  from reaches_stretch_tier [OF assms(1-4)]
  have r: "underwriting_agent db cid loan_amount tenure = stretch_tier c loan_amount tenure" .
  from stretch_tier_value [OF a assms(5,6,7)] a show ?thesis
    unfolding r by blast
qed

theorem stretch_tier_decision_witness:
  "700 \<le> credit_score customer_3
   \<and> py_lt (PyInt (pre_approved_limit customer_3)) (PyFloat (Finite False 450000))
   \<and> py_le (PyFloat (Finite False 450000)) (PyInt (2 * pre_approved_limit customer_3))
   \<and> underwriting_agent default_customers 3 (PyFloat (Finite False 450000)) 60 =
        Inr (Some \<lparr>status = ''approved'',
                reason = [Lit ''Salary verification passed. EMI (Rs'',
                          FFloatComma2 (Finite False (4617948836659201 / 549755813888)),
                          Lit '') is within 50% of monthly salary (Rs'',
                          FIntComma 120000, Lit '')''],
                interest_rate = Some (Finite False 12),
                tenure_months = Some 60,
                emi = Some (Finite False (4617948836659201 / 549755813888)),
                salary_verification_required = Some True\<rparr>)"
proof -
  have h2: "700 \<le> credit_score customer_3"
    by (simp add: customer_3_def)
  have h3: "py_lt (PyInt (pre_approved_limit customer_3)) (PyFloat (Finite False 450000))"
    by (simp add: customer_3_def py_lt_def)
  have h4: "py_le (PyFloat (Finite False 450000)) (PyInt (2 * pre_approved_limit customer_3))"
    by (simp add: customer_3_def py_le_def)
  have h5: "(0::int) < 60" and h6: "(60::int) < 2 ^ 1023" by simp_all
  have h7: "\<bar>monthly_salary customer_3\<bar> < 2 ^ 1023"
    and h8: "pre_approved_limit customer_3 < 2 ^ 1022"
    by (simp_all add: customer_3_def)
  have sal: "monthly_salary customer_3 = 120000"
    by (simp add: customer_3_def)
  from stretch_tier_decision [OF get_customer_3 h2 h3 h4 h5 h6 h7 h8]
  have "underwriting_agent default_customers 3 (PyFloat (Finite False 450000)) 60 =
        Inr (Some \<lparr>status = ''approved'',
                reason = [Lit ''Salary verification passed. EMI (Rs'',
                          FFloatComma2 (Finite False (4617948836659201 / 549755813888)),
                          Lit '') is within 50% of monthly salary (Rs'',
                          FIntComma 120000, Lit '')''],
                interest_rate = Some (Finite False 12),
                tenure_months = Some 60,
                emi = Some (Finite False (4617948836659201 / 549755813888)),
                salary_verification_required = Some True\<rparr>)"
    by (simp add: sal int_to_float_60 int_to_float_120000 float_lit_1_12 float_lit_half
        to_double_eval [OF round_double_total] to_double_eval [OF round_double_emi]
        to_double_eval [OF round_double_60000] double_overflow_def py_le_def
        cong del: if_weak_cong)
  with h2 h3 h4 show ?thesis by simp
qed

text \<open>
  C10. For every stored profile and every positive amount the rule chain is exhaustive:
  the function never falls off its end (the result is never Python's \<open>None\<close>); when the
  first three rules do not match, the guard of the last branch holds; the guards of the
  ceiling rule, the within-limit rule and the last branch exclude one another, so after the
  credit floor exactly one of them matches; and for a positive tenure, with numbers in the
  range that converts to a float, the call returns a decision that is approved or
  rejected. (A NaN amount is not positive; for it every comparison is false and the
  function does fall through, see \<open>nan_falls_through\<close>.)
\<close>

theorem rule_chain_exhaustive:
  assumes "get_customer_by_id db cid = Inr (Some c)" and "py_gt loan_amount (PyInt 0)"
  shows "underwriting_agent db cid loan_amount tenure \<noteq> Inr None
    \<and> (700 \<le> credit_score c
         \<and> \<not> py_gt loan_amount (PyInt (2 * pre_approved_limit c))
         \<and> \<not> py_le loan_amount (PyInt (pre_approved_limit c)) \<longrightarrow>
        py_lt (PyInt (pre_approved_limit c)) loan_amount
         \<and> py_le loan_amount (PyInt (2 * pre_approved_limit c)))
    \<and> \<not> (py_gt loan_amount (PyInt (2 * pre_approved_limit c))
          \<and> py_le loan_amount (PyInt (pre_approved_limit c)))
    \<and> \<not> (py_gt loan_amount (PyInt (2 * pre_approved_limit c))
          \<and> py_lt (PyInt (pre_approved_limit c)) loan_amount
          \<and> py_le loan_amount (PyInt (2 * pre_approved_limit c)))
    \<and> \<not> (py_le loan_amount (PyInt (pre_approved_limit c))
          \<and> py_lt (PyInt (pre_approved_limit c)) loan_amount
          \<and> py_le loan_amount (PyInt (2 * pre_approved_limit c)))
    \<and> (0 < tenure \<and> tenure < 2 ^ 1023 \<and> \<bar>monthly_salary c\<bar> < 2 ^ 1023
         \<and> pre_approved_limit c < 2 ^ 1022 \<longrightarrow>
        (\<exists>d. underwriting_agent db cid loan_amount tenure = Inr (Some d)
             \<and> (status d = ''approved'' \<or> status d = ''rejected'')))"
proof -
  have fin: "py_lt (PyInt (pre_approved_limit c)) loan_amount
         \<and> py_le loan_amount (PyInt (2 * pre_approved_limit c))"
    if "\<not> py_gt loan_amount (PyInt (2 * pre_approved_limit c))"
      and "\<not> py_le loan_amount (PyInt (pre_approved_limit c))"
    using final_guard_holds [OF assms(2) that] .
  have 1: "underwriting_agent db cid loan_amount tenure \<noteq> Inr None"
    using assms(1) fin stretch_tier_not_None [of c loan_amount tenure]
    by (auto simp: underwriting_agent_def underwriting_rules_def mk_decision_def)
  from guards_exclusive [OF assms(2), of "pre_approved_limit c"]
  have 3: "\<not> (py_gt loan_amount (PyInt (2 * pre_approved_limit c))
          \<and> py_le loan_amount (PyInt (pre_approved_limit c)))"
    and 4: "\<not> (py_gt loan_amount (PyInt (2 * pre_approved_limit c))
          \<and> py_lt (PyInt (pre_approved_limit c)) loan_amount
          \<and> py_le loan_amount (PyInt (2 * pre_approved_limit c)))"
    and 5: "\<not> (py_le loan_amount (PyInt (pre_approved_limit c))
          \<and> py_lt (PyInt (pre_approved_limit c)) loan_amount
          \<and> py_le loan_amount (PyInt (2 * pre_approved_limit c)))"
    by blast+
  have 6: "\<exists>d. underwriting_agent db cid loan_amount tenure = Inr (Some d)
             \<and> (status d = ''approved'' \<or> status d = ''rejected'')"
    if "0 < tenure \<and> tenure < 2 ^ 1023 \<and> \<bar>monthly_salary c\<bar> < 2 ^ 1023
         \<and> pre_approved_limit c < 2 ^ 1022"
    using underwriting_returns_decision [OF assms, of tenure] that by blast
  from 1 fin 3 4 5 6 show ?thesis by blast
qed

theorem rule_chain_exhaustive_witness:
  "py_gt (PyFloat (Finite False 450000)) (PyInt 0)
   \<and> underwriting_agent default_customers 3 (PyFloat (Finite False 450000)) 60 \<noteq> Inr None
   \<and> (\<exists>d. underwriting_agent default_customers 3 (PyFloat (Finite False 450000)) 60 = Inr (Some d)
          \<and> (status d = ''approved'' \<or> status d = ''rejected''))"
proof -
  have p: "py_gt (PyFloat (Finite False 450000)) (PyInt 0)"
    by (simp add: py_gt_def)
  have b: "(0::int) < 60 \<and> (60::int) < 2 ^ 1023 \<and> \<bar>monthly_salary customer_3\<bar> < 2 ^ 1023
         \<and> pre_approved_limit customer_3 < 2 ^ 1022"
    by (simp add: customer_3_def)
  from rule_chain_exhaustive [OF get_customer_3 p, of 60] b p
  show ?thesis by blast
qed

section \<open>Properties of the state transformer\<close>

text \<open>
  Adding a customer and writing a letter change the world, and adding the same customer
  twice gives two different ids; the underwriting agent does neither.
\<close>

lemma underwriting_agent_io_value:
  "underwriting_agent_io w cid loan_amount tenure =
     (underwriting_agent (table w) cid loan_amount tenure, w)"
  by (simp add: underwriting_agent_io_def get_customer_by_id_io_def underwriting_agent_def
      split: sum.splits)

lemma add_customer_changes_world:
  "add_customer_to_db_io initial_world n p a 950 100000 50000 =
     (Inr 4, \<lparr>table = default_customers(4 := Some (4, n, p, a, 950, 100000, 50000)),
              last_id = 4, letters = []\<rparr>)"
  by (simp add: add_customer_to_db_io_def initial_world_def sqlite_int_def)

lemma add_customer_twice_differs:
  "fst (add_customer_to_db_io (snd (add_customer_to_db_io initial_world n p a 950 100000 50000))
         n p a 950 100000 50000) = Inr 5"
  by (simp add: add_customer_changes_world) (simp add: add_customer_to_db_io_def sqlite_int_def)

lemma letter_changes_world:
  "sanction_letter_generator_io pdf_written initial_world 1 loan_amount rate tenure ''approved'' =
     (Some ''Sanction_Letter.pdf'', initial_world\<lparr>letters := [''Sanction_Letter.pdf'']\<rparr>)"
  by (simp add: sanction_letter_generator_io_def sanction_letter_generator_def initial_world_def
      get_customer_1 pdf_written_def)

text \<open>
  C8. The underwriting agent is free of side effects and deterministic. A call leaves the
  world as it found it: the table, the id sequence and the letter files. A second call
  with the same arguments, made in the world the first one left, returns the same result.
  And the result depends on the world only through the profile that the lookup returns:
  in two worlds in which the lookups agree, the same amount and tenure give the same
  result, field by field, whatever else differs in the table, the id sequence and the
  files.
\<close>

theorem underwriting_pure_and_deterministic:
  "snd (underwriting_agent_io w cid loan_amount tenure) = w
   \<and> fst (underwriting_agent_io (snd (underwriting_agent_io w cid loan_amount tenure))
           cid loan_amount tenure) = fst (underwriting_agent_io w cid loan_amount tenure)
   \<and> (get_customer_by_id (table w) cid = get_customer_by_id (table w') cid' \<longrightarrow>
        fst (underwriting_agent_io w cid loan_amount tenure) =
        fst (underwriting_agent_io w' cid' loan_amount tenure))"
  by (simp add: underwriting_agent_io_value underwriting_agent_def)

theorem underwriting_pure_and_deterministic_witness:
  "get_customer_by_id (table initial_world) 3 =
     get_customer_by_id
       (table (snd (add_customer_to_db_io initial_world ''N'' ''P'' ''A'' 950 100000 50000))) 3
   \<and> fst (underwriting_agent_io initial_world 3 (PyInt 450000) 60) =
       fst (underwriting_agent_io
             (snd (add_customer_to_db_io initial_world ''N'' ''P'' ''A'' 950 100000 50000))
             3 (PyInt 450000) 60)
   \<and> snd (underwriting_agent_io initial_world 3 (PyInt 450000) 60) = initial_world"
proof -
  have g: "get_customer_by_id (table initial_world) 3 =
     get_customer_by_id
       (table (snd (add_customer_to_db_io initial_world ''N'' ''P'' ''A'' 950 100000 50000))) 3"
    by (simp add: add_customer_changes_world) (simp add: initial_world_def get_customer_by_id_def)
  from underwriting_pure_and_deterministic [of initial_world 3 "PyInt 450000" 60
      "snd (add_customer_to_db_io initial_world ''N'' ''P'' ''A'' 950 100000 50000)" 3] g
  show ?thesis by blast
qed

section \<open>Properties of the orchestration\<close>

lemma get_customer_out_of_range:
  "\<not> sqlite_int cid \<Longrightarrow> get_customer_by_id db cid = Inl OverflowError"
  by (simp add: get_customer_by_id_def)




lemma customer_1_nonpositive:
  "underwriting_agent default_customers 1 (PyFloat (Finite True 5)) 60 =
     Inr (Some \<lparr>status = ''approved'',
                reason = [Lit ''Loan amount (Rs'', FFloatComma (Finite True 5),
                          Lit '') is within pre-approved limit (Rs'',
                          FIntComma 500000, Lit '')''],
                interest_rate = Some (Finite False (21 / 2)),
                tenure_months = Some 60, emi = None,
                salary_verification_required = None\<rparr>)"
  using within_limit_result [OF get_customer_1, of "PyFloat (Finite True 5)" 60]
  by (simp add: customer_1_def py_le_def)

lemma customer_4_out_of_domain:
  "underwriting_agent
     (table (snd (add_customer_to_db_io initial_world n p a 950 100000 50000)))
     4 (PyFloat (Finite False 100000)) 60 =
   Inr (Some \<lparr>status = ''approved'',
              reason = [Lit ''Loan amount (Rs'', FFloatComma (Finite False 100000),
                        Lit '') is within pre-approved limit (Rs'',
                        FIntComma 100000, Lit '')''],
              interest_rate = Some (Finite False (21 / 2)),
              tenure_months = Some 60, emi = None,
              salary_verification_required = None\<rparr>)"
proof -
  let ?c = "\<lparr>cust_id = 4, name = n, kyc_details = \<lparr>phone = p, address = a\<rparr>,
             credit_score = 950, pre_approved_limit = 100000, monthly_salary = 50000\<rparr>"
  have g: "get_customer_by_id
     (table (snd (add_customer_to_db_io initial_world n p a 950 100000 50000))) 4 = Inr (Some ?c)"
    by (simp add: add_customer_changes_world) (simp add: get_customer_by_id_def sqlite_int_def)
  from within_limit_result [OF g, of "PyFloat (Finite False 100000)" 60]
  show ?thesis by (simp add: py_le_def)
qed

text \<open>
  C6. Invalid input is to be refused before the eligibility rules run. The server does
  not do so. The non-positive amount -5.0 for the first default customer reaches the
  underwriting agent, which approves it under the within-limit rule; the simulation goes
  on to request the sanction letter and answers with a log, not with an error. A customer
  with the credit score 950, outside 300-900, is stored by \<open>add_customer_to_db\<close> and then
  approved like any customer with a score of at least 700.
\<close>

theorem invalid_input_reaches_engine:
  "py_le (PyFloat (Finite True 5)) (PyInt 0)
   \<and> underwriting_agent default_customers 1 (PyFloat (Finite True 5)) 60 =
       Inr (Some \<lparr>status = ''approved'',
                reason = [Lit ''Loan amount (Rs'', FFloatComma (Finite True 5),
                          Lit '') is within pre-approved limit (Rs'',
                          FIntComma 500000, Lit '')''],
                interest_rate = Some (Finite False (21 / 2)),
                tenure_months = Some 60, emi = None,
                salary_verification_required = None\<rparr>)
   \<and> calls (start_simulation pdf_written default_customers 1 (Finite True 5)) =
       [Call_verification 1, Call_underwriting 1 (PyFloat (Finite True 5)),
        Call_sanction_letter 1 (Finite True 5) (Finite False (21 / 2)) 60 ''approved'']
   \<and> \<not> isl (response (start_simulation pdf_written default_customers 1 (Finite True 5)))
   \<and> fst (add_customer_to_db_io initial_world ''N'' ''P'' ''A'' 950 100000 50000) = Inr 4
   \<and> underwriting_agent
       (table (snd (add_customer_to_db_io initial_world ''N'' ''P'' ''A'' 950 100000 50000)))
       4 (PyFloat (Finite False 100000)) 60 =
     Inr (Some \<lparr>status = ''approved'',
              reason = [Lit ''Loan amount (Rs'', FFloatComma (Finite False 100000),
                        Lit '') is within pre-approved limit (Rs'',
                        FIntComma 100000, Lit '')''],
              interest_rate = Some (Finite False (21 / 2)),
              tenure_months = Some 60, emi = None,
              salary_verification_required = None\<rparr>)"
  using get_customer_1 customer_1_nonpositive customer_4_out_of_domain [of "''N''" "''P''" "''A''"]
    add_customer_changes_world [of "''N''" "''P''" "''A''"]
  by (simp add: py_le_def start_simulation_def verification_agent_def conclude_def
      underwriting_agent_default_def sanction_letter_generator_def pdf_written_def
      salary_flag_def Let_def)

text \<open>
  C9. When the underwriting agent has approved and the sanction-letter generator then
  fails (returns \<open>None\<close>), the decision is left as it is and the response is still the
  log: it ends with the approval line, the line that announces the generation, and the
  generator's own error line, in this order; the three agents were called in order.
\<close>

theorem generation_failure_keeps_approval:
  assumes "get_customer_by_id db cid = Inr (Some c)"
    and "underwriting_agent_default db cid (PyFloat loan_amount) = Inr (Some d)"
    and "status d = ''approved''"
    and "interest_rate d = Some rate" and "tenure_months d = Some tenure"
    and "sanction_letter_generator write_pdf db cid loan_amount rate tenure ''approved'' = None"
  shows "\<exists>pre. response (start_simulation write_pdf db cid loan_amount) =
           Inr (pre @
             [[Lit (icon_check @ '' Master Agent: Loan application has been APPROVED! '' @ icon_party)],
              [Lit (icon_memo @ '' Master Agent: Generating sanction letter...'')],
              [Lit (icon_cross @ '' Sanction Letter Agent: Error generating PDF. Please contact support.'')]])
         \<and> calls (start_simulation write_pdf db cid loan_amount) =
             [Call_verification cid, Call_underwriting cid (PyFloat loan_amount),
              Call_sanction_letter cid loan_amount rate tenure ''approved'']"
  using assms
  by (simp add: start_simulation_def verification_agent_def conclude_def Let_def)

theorem generation_failure_keeps_approval_witness:
  "sanction_letter_generator pdf_fails default_customers 1 (Finite False 500000)
     (Finite False (21 / 2)) 60 ''approved'' = None
   \<and> (\<exists>pre. response (start_simulation pdf_fails default_customers 1 (Finite False 500000)) =
           Inr (pre @
             [[Lit (icon_check @ '' Master Agent: Loan application has been APPROVED! '' @ icon_party)],
              [Lit (icon_memo @ '' Master Agent: Generating sanction letter...'')],
              [Lit (icon_cross @ '' Sanction Letter Agent: Error generating PDF. Please contact support.'')]]))
   \<and> calls (start_simulation pdf_fails default_customers 1 (Finite False 500000)) =
       [Call_verification 1, Call_underwriting 1 (PyFloat (Finite False 500000)),
        Call_sanction_letter 1 (Finite False 500000) (Finite False (21 / 2)) 60 ''approved'']"
proof -
  let ?d = "\<lparr>status = ''approved'',
                reason = [Lit ''Loan amount (Rs'', fmt_comma (PyFloat (Finite False 500000)),
                          Lit '') is within pre-approved limit (Rs'',
                          FIntComma (pre_approved_limit customer_1), Lit '')''],
                interest_rate = Some (Finite False (21 / 2)),
                tenure_months = Some 60, emi = None,
                salary_verification_required = None\<rparr>"
  have u: "underwriting_agent_default default_customers 1 (PyFloat (Finite False 500000)) =
       Inr (Some ?d)"
    unfolding underwriting_agent_default_def
    by (rule within_limit_result [OF get_customer_1]) (simp_all add: customer_1_def py_le_def)
  have s: "status ?d = ''approved''" by simp
  have i: "interest_rate ?d = Some (Finite False (21 / 2))" by simp
  have t: "tenure_months ?d = Some 60" by simp
  have f: "sanction_letter_generator pdf_fails default_customers 1 (Finite False 500000)
     (Finite False (21 / 2)) 60 ''approved'' = None"
    by (simp add: sanction_letter_generator_def pdf_fails_def get_customer_1)
  from generation_failure_keeps_approval [OF get_customer_1 u s i t f] f
  show ?thesis by blast
qed

end
